theory Spec2Isabelle
  imports Complex_Main "HOL-Library.Sublist"
begin

section \<open>The Logger of src/index.ts\<close>

text \<open>
  The logger is one TypeScript class. Its methods read and write the file system, the
  console, the clock and the call stack; the model passes all of that explicitly:
  a \<open>state\<close> holds the logger object (\<open>this\<close>), the files, the console and the clock,
  and a \<open>platform\<close> holds the library functions the class calls (path, util, luxon,
  chalk, stacktrace-js, Intl) and the faults of the file system. An exception is a
  value: every method returns an \<open>outcome\<close> together with the state it leaves behind.
\<close>

subsection \<open>Severity levels and their tags\<close>

text \<open>The enum \<open>LEVEL\<close>; \<open>rank\<close> is the number TypeScript gives each member.\<close>

datatype LEVEL = Debug | Info | Success | Warning | Error | Notice

fun rank :: "LEVEL \<Rightarrow> nat" where
  "rank Debug = 0"
| "rank Info = 1"
| "rank Success = 2"
| "rank Warning = 3"
| "rank Error = 4"
| "rank Notice = 5"

fun LEVEL_TAG :: "LEVEL \<Rightarrow> string" where
  "LEVEL_TAG Debug = '' debug ''"
| "LEVEL_TAG Info = '' info  ''"
| "LEVEL_TAG Success = ''success''"
| "LEVEL_TAG Warning = ''warning''"
| "LEVEL_TAG Error = '' error ''"
| "LEVEL_TAG Notice = ''notice ''"

text \<open>The chalk styles that \<open>LEVEL_COLOR\<close> applies.\<close>

datatype style = Gray | Blue | GreenBright | YellowBright | RedBright | BgRedBright

subsection \<open>JavaScript values and strings\<close>

text \<open>
  The values a caller can pass to a logging method. \<open>Number n\<close> is an integer-valued
  number, \<open>Function src\<close> a function with source text \<open>src\<close>, \<open>Symbol d\<close> a symbol
  with description \<open>d\<close>, \<open>Object kvs\<close> a plain object with the given own properties.
\<close>

datatype jsval =
    Undefined
  | Null
  | Boolean bool
  | Number int
  | BigInt int
  | String string
  | Symbol string
  | Function string
  | Object "(string \<times> jsval) list"

datatype fs_call =
    Mkdir string
  | Stat string
  | Rename string string
  | AppendFile string
  | WriteFile string

text \<open>What a method can throw: a TypeError, or the error of a file-system call.\<close>

datatype jserror = TypeError | SystemError fs_call

datatype outcome = Returned | Thrown jserror

fun typeof :: "jsval \<Rightarrow> string" where
  "typeof Undefined = ''undefined''"
| "typeof Null = ''object''"
| "typeof (Boolean b) = ''boolean''"
| "typeof (Number n) = ''number''"
| "typeof (BigInt n) = ''bigint''"
| "typeof (String s) = ''string''"
| "typeof (Symbol d) = ''symbol''"
| "typeof (Function src) = ''function''"
| "typeof (Object kvs) = ''object''"

definition digit :: "nat \<Rightarrow> char" where
  "digit d = ''0123456789'' ! d"

fun digits :: "nat \<Rightarrow> string" where
  "digits n = (if n < 10 then [digit n] else digits (n div 10) @ [digit (n mod 10)])"

declare digits.simps [simp del]

text \<open>\<open>Number.prototype.toString\<close> on an integer-valued number.\<close>

definition Number_toString :: "int \<Rightarrow> string" where
  "Number_toString n = (if n < 0 then CHR ''-'' # digits (nat (- n)) else digits (nat n))"

text \<open>
  The abstract operation ToString of ECMAScript: what string concatenation, template
  literals and \<open>Array.prototype.join\<close> apply to a value. It throws on a symbol.
\<close>

fun ToString :: "jsval \<Rightarrow> jserror + string" where
  "ToString Undefined = Inr ''undefined''"
| "ToString Null = Inr ''null''"
| "ToString (Boolean b) = Inr (if b then ''true'' else ''false'')"
| "ToString (Number n) = Inr (Number_toString n)"
| "ToString (BigInt n) = Inr (Number_toString n)"
| "ToString (String s) = Inr s"
| "ToString (Symbol d) = Inl TypeError"
| "ToString (Function src) = Inr src"
| "ToString (Object kvs) = Inr ''[object Object]''"

text \<open>
  \<open>Array.prototype.join\<close>: an element that is undefined or null gives the empty
  string, every other element goes through ToString, left to right.
\<close>

definition join_element :: "jsval \<Rightarrow> jserror + string" where
  "join_element x = (if x = Undefined \<or> x = Null then Inr [] else ToString x)"

fun Array_join :: "string \<Rightarrow> jsval list \<Rightarrow> jserror + string" where
  "Array_join sep [] = Inr []"
| "Array_join sep [x] = join_element x"
| "Array_join sep (x # y # ys) =
     (case join_element x of
        Inl e \<Rightarrow> Inl e
      | Inr sx \<Rightarrow>
          (case Array_join sep (y # ys) of
             Inl e \<Rightarrow> Inl e
           | Inr rest \<Rightarrow> Inr (sx @ sep @ rest)))"

text \<open>
  \<open>String.prototype.replace\<close> with a string pattern replaces the first occurrence of
  the pattern only, and reads the replacement as a template: \<open>$$\<close> stands for a dollar
  sign, \<open>$&\<close> for the matched text, \<open>$`\<close> for the text before the match and \<open>$'\<close> for
  the text after it (GetSubstitution; there are no capture groups, so every other
  \<open>$\<close> stands for itself).
\<close>

fun split_first :: "string \<Rightarrow> string \<Rightarrow> (string \<times> string) option" where
  "split_first pat [] = (if pat = [] then Some ([], []) else None)"
| "split_first pat (c # cs) =
     (if prefix pat (c # cs) then Some ([], drop (length pat) (c # cs))
      else (case split_first pat cs of
              None \<Rightarrow> None
            | Some (front, back) \<Rightarrow> Some (c # front, back)))"

fun GetSubstitution :: "string \<Rightarrow> string \<Rightarrow> string \<Rightarrow> string \<Rightarrow> string" where
  "GetSubstitution matched front back [] = []"
| "GetSubstitution matched front back [c] = [c]"
| "GetSubstitution matched front back (c # d # cs) =
     (if c = CHR ''$'' \<and> d = CHR ''$'' then CHR ''$'' # GetSubstitution matched front back cs
      else if c = CHR ''$'' \<and> d = CHR ''&'' then matched @ GetSubstitution matched front back cs
      else if c = CHR ''$'' \<and> d = CHR 0x60 then front @ GetSubstitution matched front back cs
      else if c = CHR ''$'' \<and> d = CHR 0x27 then back @ GetSubstitution matched front back cs
      else c # GetSubstitution matched front back (d # cs))"

definition replace :: "string \<Rightarrow> string \<Rightarrow> string \<Rightarrow> string" where
  "replace s pat rep =
     (case split_first pat s of
        None \<Rightarrow> s
      | Some (front, back) \<Rightarrow> front @ GetSubstitution pat front back rep @ back)"

subsection \<open>Stack frames\<close>

text \<open>
  A frame of stacktrace-js. Each getter returns undefined (\<open>None\<close>) where the engine
  gave no value, as for a native or an anonymous frame.
\<close>

record StackFrame =
  fileName :: "string option"
  lineNumber :: "nat option"
  functionName :: "string option"
  columnNumber :: "nat option"

text \<open>
  The places inside the class that stand on the call stack while a line is logged: the
  call of \<open>log\<close> in a per-level method, the call of \<open>writeLine\<close> in \<open>log\<close>, and the
  two calls of \<open>StackTrace.getSync\<close>.
\<close>

datatype site =
    In_method LEVEL
  | In_log_at_writeLine
  | In_log_at_getSync
  | In_writeLine_at_getSync

subsection \<open>The platform\<close>

text \<open>
  The library functions that the class imports, and the environment of the process.
  \<open>traceLimit\<close> is the number of frames \<open>StackTrace.getSync\<close> returns at most (the
  engine's stack trace limit, less the frames of stacktrace-js that it filters out);
  \<open>callSite\<close> gives the frame the engine reports for each place inside the class;
  \<open>fails\<close> says which file-system calls the operating system refuses (permissions,
  a full disk, a missing parent directory).
\<close>

record platform =
  cwd :: string
  path_join :: "string \<Rightarrow> string \<Rightarrow> string"
  inspect :: "jsval \<Rightarrow> string"
  toFormat :: "int \<Rightarrow> string \<Rightarrow> string"
  chalk :: "style \<Rightarrow> string \<Rightarrow> string"
  toLocaleDateString :: "int \<Rightarrow> string"
  traceLimit :: nat
  callSite :: "site \<Rightarrow> StackFrame"
  fails :: "fs_call \<Rightarrow> bool"

definition LEVEL_COLOR :: "platform \<Rightarrow> LEVEL \<Rightarrow> string" where
  "LEVEL_COLOR pf l =
     (case l of
        Debug \<Rightarrow> chalk pf Gray '' debug ''
      | Info \<Rightarrow> chalk pf Blue '' info  ''
      | Success \<Rightarrow> chalk pf GreenBright ''success''
      | Warning \<Rightarrow> chalk pf YellowBright ''warning''
      | Error \<Rightarrow> chalk pf RedBright '' error ''
      | Notice \<Rightarrow> chalk pf BgRedBright ''notice '')"

text \<open>
  \<open>StackTrace.getSync()\<close>, given the frames that the engine reports for the stack at
  the call, innermost first, the calling function's own frame at the head
  (stacktrace-js leaves its own frames out).
\<close>

definition getSync :: "platform \<Rightarrow> StackFrame list \<Rightarrow> StackFrame list" where
  "getSync pf stack = take (traceLimit pf) stack"

subsection \<open>The logger object and the state of the process\<close>

text \<open>
  The private fields of the class; \<open>u_level\<close>, \<open>u_timeFormat\<close> and \<open>u_format\<close> are the
  fields the source writes with a leading underscore.
\<close>

record Logger =
  logPath :: string
  doWrite :: bool
  u_level :: LEVEL
  u_timeFormat :: string
  u_format :: string

text \<open>A directory, or a regular file with its contents; both carry their birth time.\<close>

datatype node = Directory rat | File rat string

fun birthtimeMs :: "node \<Rightarrow> rat" where
  "birthtimeMs (Directory t) = t"
| "birthtimeMs (File t c) = t"

datatype stream = Console_log | Console_warn | Console_error

text \<open>
  \<open>console\<close> lists the calls of \<open>console.log\<close>, \<open>console.warn\<close> and
  \<open>console.error\<close> made so far, oldest first. \<open>now\<close> is the clock in milliseconds;
  one logging call runs within one reading of it.
\<close>

record state =
  this :: Logger
  fs :: "string \<rightharpoonup> node"
  console :: "(stream \<times> string) list"
  now :: int

subsection \<open>Construction and configuration accessors\<close>

definition createInstance :: "platform \<Rightarrow> Logger" where
  "createInstance pf =
     \<lparr> logPath = path_join pf (cwd pf) ''logs'',
       doWrite = True,
       u_level = Info,
       u_timeFormat = ''D TT'',
       u_format = ''{time} [{level}] {content}'' \<rparr>"

definition path :: "Logger \<Rightarrow> string" where
  "path lg = logPath lg"

definition set_path :: "string \<Rightarrow> Logger \<Rightarrow> Logger" where
  "set_path v lg = lg\<lparr>logPath := v\<rparr>"

definition writeFile :: "Logger \<Rightarrow> bool" where
  "writeFile lg = doWrite lg"

definition set_writeFile :: "bool \<Rightarrow> Logger \<Rightarrow> Logger" where
  "set_writeFile v lg = lg\<lparr>doWrite := v\<rparr>"

definition level :: "Logger \<Rightarrow> LEVEL" where
  "level lg = u_level lg"

definition set_level :: "LEVEL \<Rightarrow> Logger \<Rightarrow> Logger" where
  "set_level v lg = lg\<lparr>u_level := v\<rparr>"

definition timeFormat :: "Logger \<Rightarrow> string" where
  "timeFormat lg = u_timeFormat lg"

definition set_timeFormat :: "string \<Rightarrow> Logger \<Rightarrow> Logger" where
  "set_timeFormat v lg = lg\<lparr>u_timeFormat := v\<rparr>"

definition logFormat :: "Logger \<Rightarrow> string" where
  "logFormat lg = u_format lg"

definition set_logFormat :: "string \<Rightarrow> Logger \<Rightarrow> Logger" where
  "set_logFormat v lg = lg\<lparr>u_format := v\<rparr>"

subsection \<open>The file system calls\<close>

text \<open>
  The calls of Node's \<open>fs\<close> module that the class makes, on a file system that maps a
  path to the directory or file there. A call throws when the operating system refuses
  it (\<open>fails\<close>) and where the state of the file system rules it out: \<open>mkdirSync\<close> on a
  path that exists, \<open>statSync\<close> and \<open>renameSync\<close> on a path that does not, a rename onto
  a directory, a write to a directory. A directory or file that a call creates is
  born at \<open>now\<close>; \<open>renameSync\<close> moves the node as it is, so a renamed file keeps its
  birth time, and \<open>writeFileSync\<close> on a file that is there replaces its contents and
  keeps its birth time.
\<close>

definition existsSync :: "string \<Rightarrow> state \<Rightarrow> bool" where
  "existsSync p s = (fs s p \<noteq> None)"

definition mkdirSync :: "platform \<Rightarrow> string \<Rightarrow> state \<Rightarrow> outcome \<times> state" where
  "mkdirSync pf p s =
     (if fails pf (Mkdir p) \<or> fs s p \<noteq> None then (Thrown (SystemError (Mkdir p)), s)
      else (Returned, s\<lparr>fs := (fs s)(p \<mapsto> Directory (of_int (now s)))\<rparr>))"

definition statSync :: "platform \<Rightarrow> string \<Rightarrow> state \<Rightarrow> jserror + node" where
  "statSync pf p s =
     (if fails pf (Stat p) then Inl (SystemError (Stat p))
      else (case fs s p of
              None \<Rightarrow> Inl (SystemError (Stat p))
            | Some n \<Rightarrow> Inr n))"

fun is_Directory :: "node option \<Rightarrow> bool" where
  "is_Directory (Some (Directory t)) = True"
| "is_Directory other = False"

definition renameSync :: "platform \<Rightarrow> string \<Rightarrow> string \<Rightarrow> state \<Rightarrow> outcome \<times> state" where
  "renameSync pf old new s =
     (if fails pf (Rename old new) \<or> is_Directory (fs s new)
      then (Thrown (SystemError (Rename old new)), s)
      else (case fs s old of
              None \<Rightarrow> (Thrown (SystemError (Rename old new)), s)
            | Some n \<Rightarrow> (Returned, s\<lparr>fs := ((fs s)(old := None))(new \<mapsto> n)\<rparr>)))"

definition appendFileSync :: "platform \<Rightarrow> string \<Rightarrow> string \<Rightarrow> state \<Rightarrow> outcome \<times> state" where
  "appendFileSync pf p text s =
     (if fails pf (AppendFile p) then (Thrown (SystemError (AppendFile p)), s)
      else (case fs s p of
              None \<Rightarrow> (Returned, s\<lparr>fs := (fs s)(p \<mapsto> File (of_int (now s)) text)\<rparr>)
            | Some (Directory t) \<Rightarrow> (Thrown (SystemError (AppendFile p)), s)
            | Some (File t c) \<Rightarrow> (Returned, s\<lparr>fs := (fs s)(p \<mapsto> File t (c @ text))\<rparr>)))"

definition writeFileSync :: "platform \<Rightarrow> string \<Rightarrow> string \<Rightarrow> state \<Rightarrow> outcome \<times> state" where
  "writeFileSync pf p text s =
     (if fails pf (WriteFile p) then (Thrown (SystemError (WriteFile p)), s)
      else (case fs s p of
              None \<Rightarrow> (Returned, s\<lparr>fs := (fs s)(p \<mapsto> File (of_int (now s)) text)\<rparr>)
            | Some (Directory t) \<Rightarrow> (Thrown (SystemError (WriteFile p)), s)
            | Some (File t c) \<Rightarrow> (Returned, s\<lparr>fs := (fs s)(p \<mapsto> File t text)\<rparr>)))"

subsection \<open>The private methods\<close>

definition checkLevel :: "LEVEL \<Rightarrow> state \<Rightarrow> bool" where
  "checkLevel lvl s = (rank lvl \<ge> rank (u_level (this s)))"

definition getTime :: "platform \<Rightarrow> state \<Rightarrow> string" where
  "getTime pf s = toFormat pf (now s) (u_timeFormat (this s))"

text \<open>
  The three chained calls of \<open>replace\<close> on the format that \<open>log\<close> (lines 234 to 237)
  and \<open>writeLine\<close> (lines 273 to 276) both start with.
\<close>

definition fill :: "string \<Rightarrow> string \<Rightarrow> string \<Rightarrow> string \<Rightarrow> string" where
  "fill format time tag line =
     replace (replace (replace format ''{time}'' time) ''{level}'' tag) ''{content}'' line"

text \<open>A string getter's result as a replacement: \<open>undefined\<close> is spelled out.\<close>

fun replacement :: "string option \<Rightarrow> string" where
  "replacement None = ''undefined''"
| "replacement (Some v) = v"

text \<open>
  The four chained calls of \<open>replace\<close> with the values of a frame (lines 242 to 246
  and 281 to 285). \<open>toString()\<close> on an undefined line or column number throws.
\<close>

definition locate :: "StackFrame \<Rightarrow> string \<Rightarrow> jserror + string" where
  "locate frame message =
     (case lineNumber frame of
        None \<Rightarrow> Inl TypeError
      | Some line_no \<Rightarrow>
          (case columnNumber frame of
             None \<Rightarrow> Inl TypeError
           | Some column_no \<Rightarrow>
               Inr (replace
                     (replace
                       (replace
                         (replace message ''{fileName}'' (replacement (fileName frame)))
                         ''{lineNumber}'' (digits line_no))
                       ''{functionName}'' (replacement (functionName frame)))
                     ''{columnNumber}'' (digits column_no))))"

text \<open>
  The formatting that \<open>log\<close> (lines 234 to 247) and \<open>writeLine\<close> (lines 273 to 286)
  both do, alike but for the tag: the format filled in, then, when the trace has three
  frames or more, the values of the frame at index 2. \<open>stack\<close> is the stack at the call
  of \<open>StackTrace.getSync\<close>.
\<close>

definition formatted :: "platform \<Rightarrow> string \<Rightarrow> string \<Rightarrow> StackFrame list \<Rightarrow> state \<Rightarrow> jserror + string" where
  "formatted pf tag line stack s =
     (let message = fill (u_format (this s)) (getTime pf s) tag line;
          trace = getSync pf stack
      in if length trace \<ge> 3 then locate (trace ! 2) message else Inr message)"

text \<open>\<open>new Date(ms)\<close> drops the fraction of its argument.\<close>

definition Date_of :: "rat \<Rightarrow> int" where
  "Date_of ms = (if 0 \<le> ms then \<lfloor>ms\<rfloor> else \<lceil>ms\<rceil>)"

text \<open>The body of the \<open>try\<close> block of \<open>writeLine\<close> (lines 288 to 295).\<close>

definition try_append :: "platform \<Rightarrow> string \<Rightarrow> string \<Rightarrow> state \<Rightarrow> outcome \<times> state" where
  "try_append pf output message s =
     (case statSync pf output s of
        Inl e \<Rightarrow> (Thrown e, s)
      | Inr stat \<Rightarrow>
          (case (if of_int (now s) - birthtimeMs stat \<ge> 86400000
                 then renameSync pf output
                        (path_join pf (logPath (this s))
                           (''output-'' @ toLocaleDateString pf (Date_of (birthtimeMs stat)) @ ''.log''))
                        s
                 else (Returned, s)) of
             (Thrown e, s') \<Rightarrow> (Thrown e, s')
           | (Returned, s') \<Rightarrow> appendFileSync pf output (message @ [CHR 0x0A]) s'))"

text \<open>
  \<open>writeLine\<close>; \<open>stack\<close> holds the frames below it, innermost first (the frame of
  \<open>log\<close> at the head).
\<close>

definition writeLine :: "platform \<Rightarrow> LEVEL \<Rightarrow> string \<Rightarrow> StackFrame list \<Rightarrow> state \<Rightarrow> outcome \<times> state" where
  "writeLine pf lvl line stack s =
     (if \<not> doWrite (this s) then (Returned, s)
      else
        (case (if \<not> existsSync (logPath (this s)) s then mkdirSync pf (logPath (this s)) s
               else (Returned, s)) of
           (Thrown e, s1) \<Rightarrow> (Thrown e, s1)
         | (Returned, s1) \<Rightarrow>
             (let output = path_join pf (logPath (this s1)) ''latest.log''
              in (case formatted pf (LEVEL_TAG lvl) line
                         (callSite pf In_writeLine_at_getSync # stack) s1 of
                    Inl e \<Rightarrow> (Thrown e, s1)
                  | Inr message \<Rightarrow>
                      (case try_append pf output message s1 of
                         (Returned, s2) \<Rightarrow> (Returned, s2)
                       | (Thrown caught, s2) \<Rightarrow>
                           writeFileSync pf output (message @ [CHR 0x0A]) s2)))))"

text \<open>The loop of \<open>log\<close> over its arguments (lines 225 to 229).\<close>

definition parsed :: "platform \<Rightarrow> jsval list \<Rightarrow> jsval list" where
  "parsed pf args =
     map (\<lambda>arg. if typeof arg = ''object'' then String (inspect pf arg) else arg) args"

definition emit :: "stream \<Rightarrow> string \<Rightarrow> state \<Rightarrow> state" where
  "emit out message s = s\<lparr>console := console s @ [(out, message)]\<rparr>"

text \<open>
  \<open>log\<close>; \<open>stack\<close> holds the frames below it, innermost first (the frame of the
  per-level method at the head).
\<close>

definition log_entry :: "platform \<Rightarrow> LEVEL \<Rightarrow> jsval list \<Rightarrow> StackFrame list \<Rightarrow> state \<Rightarrow> outcome \<times> state" where
  "log_entry pf lvl args stack s =
     (if \<not> checkLevel lvl s then (Returned, s)
      else
        (case Array_join '' '' (parsed pf args) of
           Inl e \<Rightarrow> (Thrown e, s)
         | Inr line \<Rightarrow>
             (case writeLine pf lvl line (callSite pf In_log_at_writeLine # stack) s of
                (Thrown e, s1) \<Rightarrow> (Thrown e, s1)
              | (Returned, s1) \<Rightarrow>
                  (case formatted pf (LEVEL_COLOR pf lvl) line
                          (callSite pf In_log_at_getSync # stack) s1 of
                     Inl e \<Rightarrow> (Thrown e, s1)
                   | Inr message \<Rightarrow>
                       (case lvl of
                          Error \<Rightarrow> (Returned, emit Console_error message s1)
                        | Warning \<Rightarrow> (Returned, emit Console_warn message s1)
                        | _ \<Rightarrow> (Returned, emit Console_log message s1))))))"

subsection \<open>The per-level methods\<close>

text \<open>
  Each takes the caller's stack, innermost first: the frame of the call site in user
  code at the head.
\<close>

definition debug :: "platform \<Rightarrow> jsval list \<Rightarrow> StackFrame list \<Rightarrow> state \<Rightarrow> outcome \<times> state" where
  "debug pf args stack s = log_entry pf Debug args (callSite pf (In_method Debug) # stack) s"

definition info :: "platform \<Rightarrow> jsval list \<Rightarrow> StackFrame list \<Rightarrow> state \<Rightarrow> outcome \<times> state" where
  "info pf args stack s = log_entry pf Info args (callSite pf (In_method Info) # stack) s"

definition success :: "platform \<Rightarrow> jsval list \<Rightarrow> StackFrame list \<Rightarrow> state \<Rightarrow> outcome \<times> state" where
  "success pf args stack s = log_entry pf Success args (callSite pf (In_method Success) # stack) s"

definition warning :: "platform \<Rightarrow> jsval list \<Rightarrow> StackFrame list \<Rightarrow> state \<Rightarrow> outcome \<times> state" where
  "warning pf args stack s = log_entry pf Warning args (callSite pf (In_method Warning) # stack) s"

definition error :: "platform \<Rightarrow> jsval list \<Rightarrow> StackFrame list \<Rightarrow> state \<Rightarrow> outcome \<times> state" where
  "error pf args stack s = log_entry pf Error args (callSite pf (In_method Error) # stack) s"

definition notice :: "platform \<Rightarrow> jsval list \<Rightarrow> StackFrame list \<Rightarrow> state \<Rightarrow> outcome \<times> state" where
  "notice pf args stack s = log_entry pf Notice args (callSite pf (In_method Notice) # stack) s"

text \<open>The per-level method of a level.\<close>

fun operation :: "LEVEL \<Rightarrow> platform \<Rightarrow> jsval list \<Rightarrow> StackFrame list \<Rightarrow> state \<Rightarrow> outcome \<times> state" where
  "operation Debug = debug"
| "operation Info = info"
| "operation Success = success"
| "operation Warning = warning"
| "operation Error = error"
| "operation Notice = notice"

subsection \<open>What the specification compares the code with\<close>

text \<open>Strings joined with a separator between them.\<close>

fun joined :: "string \<Rightarrow> string list \<Rightarrow> string" where
  "joined sep [] = []"
| "joined sep [x] = x"
| "joined sep (x # y # ys) = x @ sep @ joined sep (y # ys)"

text \<open>
  The specification's content rendering, in its words: a non-primitive value is
  rendered by structural inspection, a primitive value is converted to its natural
  string form (what \<open>String(v)\<close> gives), and the pieces are joined with single spaces.
\<close>

fun is_primitive :: "jsval \<Rightarrow> bool" where
  "is_primitive (Function src) = False"
| "is_primitive (Object kvs) = False"
| "is_primitive v = True"

fun natural_string :: "jsval \<Rightarrow> string" where
  "natural_string (Symbol d) = ''Symbol('' @ d @ '')''"
| "natural_string v = (case ToString v of Inl e \<Rightarrow> [] | Inr str \<Rightarrow> str)"

definition spec_content :: "platform \<Rightarrow> jsval list \<Rightarrow> string" where
  "spec_content pf args =
     joined '' '' (map (\<lambda>arg. if is_primitive arg then natural_string arg else inspect pf arg) args)"

text \<open>
  The specification's single-pass substitution, in its words: one pass over the format
  string that replaces each token where it stands in the format and never looks at
  the text it has put in. \<open>skip\<close> counts the characters of a token still to pass.
\<close>

fun single_pass_from :: "(string \<times> string) list \<Rightarrow> nat \<Rightarrow> string \<Rightarrow> string" where
  "single_pass_from bindings skip [] = []"
| "single_pass_from bindings skip (c # cs) =
     (if skip > 0 then single_pass_from bindings (skip - 1) cs
      else (case find (\<lambda>(token, v). prefix token (c # cs)) bindings of
              Some (token, v) \<Rightarrow> v @ single_pass_from bindings (length token - 1) cs
            | None \<Rightarrow> c # single_pass_from bindings 0 cs))"

definition single_pass :: "(string \<times> string) list \<Rightarrow> string \<Rightarrow> string" where
  "single_pass bindings format = single_pass_from bindings 0 format"

subsection \<open>An example platform\<close>

text \<open>
  A platform to run the model on: a POSIX process in \<open>/srv/app\<close> whose time zone is
  UTC and whose locale writes dates as YYYY-MM-DD, a terminal with colours, a file
  system that refuses nothing, and the class loaded from its TypeScript source, so
  that the frames inside it carry the line numbers of src/index.ts.
\<close>

definition pad :: "nat \<Rightarrow> string \<Rightarrow> string" where
  "pad w str = replicate (w - length str) CHR ''0'' @ str"

text \<open>The calendar date (UTC) of a time in milliseconds since the epoch, as YYYY-MM-DD.\<close>

definition utc_date :: "int \<Rightarrow> string" where
  "utc_date ms =
     (let z = ms div 86400000 + 719468;
          era = z div 146097;
          doe = z - era * 146097;
          yoe = (doe - doe div 1460 + doe div 36524 - doe div 146096) div 365;
          doy = doe - (365 * yoe + yoe div 4 - yoe div 100);
          mp = (5 * doy + 2) div 153;
          d = doy - (153 * mp + 2) div 5 + 1;
          m = (if mp < 10 then mp + 3 else mp - 9);
          y = yoe + era * 400 + (if m \<le> 2 then 1 else 0)
      in pad 4 (Number_toString y) @ ''-'' @ pad 2 (Number_toString m) @ ''-'' @ pad 2 (Number_toString d))"

definition utc_clock :: "int \<Rightarrow> string" where
  "utc_clock ms =
     (let sec = (ms mod 86400000) div 1000
      in pad 2 (Number_toString (sec div 3600)) @ '':''
         @ pad 2 (Number_toString ((sec div 60) mod 60)) @ '':''
         @ pad 2 (Number_toString (sec mod 60)))"

definition ansi :: "nat \<Rightarrow> nat \<Rightarrow> string \<Rightarrow> string" where
  "ansi opening closing str =
     CHR 0x1B # ''['' @ digits opening @ ''m'' @ str @ CHR 0x1B # ''['' @ digits closing @ ''m''"

fun example_chalk :: "style \<Rightarrow> string \<Rightarrow> string" where
  "example_chalk Gray = ansi 90 39"
| "example_chalk Blue = ansi 34 39"
| "example_chalk GreenBright = ansi 92 39"
| "example_chalk YellowBright = ansi 93 39"
| "example_chalk RedBright = ansi 91 39"
| "example_chalk BgRedBright = ansi 101 49"

text \<open>A one-level rendering of a value in the manner of \<open>util.inspect\<close>.\<close>

fun example_property :: "string \<times> jsval \<Rightarrow> string" where
  "example_property (k, String v) = k @ '': '' @ CHR 0x27 # v @ [CHR 0x27]"
| "example_property (k, Symbol d) = k @ '': Symbol('' @ d @ '')''"
| "example_property (k, Function src) = k @ '': [Function]''"
| "example_property (k, Object kvs) = k @ '': [Object]''"
| "example_property (k, v) = k @ '': '' @ (case ToString v of Inl e \<Rightarrow> [] | Inr str \<Rightarrow> str)"

fun example_inspect :: "jsval \<Rightarrow> string" where
  "example_inspect (Object []) = ''{}''"
| "example_inspect (Object kvs) = ''{ '' @ joined '', '' (map example_property kvs) @ '' }''"
| "example_inspect (String v) = CHR 0x27 # v @ [CHR 0x27]"
| "example_inspect (Symbol d) = ''Symbol('' @ d @ '')''"
| "example_inspect (Function src) = ''[Function]''"
| "example_inspect v = (case ToString v of Inl e \<Rightarrow> [] | Inr str \<Rightarrow> str)"

definition module_frame :: "string \<Rightarrow> nat \<Rightarrow> nat \<Rightarrow> StackFrame" where
  "module_frame method line column =
     \<lparr> fileName = Some ''/srv/app/node_modules/@elenoragroup/logger/src/index.ts'',
       lineNumber = Some line,
       functionName = Some method,
       columnNumber = Some column \<rparr>"

fun example_callSite :: "site \<Rightarrow> StackFrame" where
  "example_callSite (In_method Debug) = module_frame ''Logger.debug'' 164 10"
| "example_callSite (In_method Info) = module_frame ''Logger.info'' 175 10"
| "example_callSite (In_method Success) = module_frame ''Logger.success'' 186 10"
| "example_callSite (In_method Warning) = module_frame ''Logger.warning'' 197 10"
| "example_callSite (In_method Error) = module_frame ''Logger.error'' 208 10"
| "example_callSite (In_method Notice) = module_frame ''Logger.notice'' 219 10"
| "example_callSite In_log_at_writeLine = module_frame ''Logger.log'' 232 10"
| "example_callSite In_log_at_getSync = module_frame ''Logger.log'' 239 30"
| "example_callSite In_writeLine_at_getSync = module_frame ''Logger.writeLine'' 278 30"

definition example_platform :: platform where
  "example_platform =
     \<lparr> cwd = ''/srv/app'',
       path_join = (\<lambda>dir name. dir @ ''/'' @ name),
       inspect = example_inspect,
       toFormat = (\<lambda>ms format. if format = ''D TT'' then utc_date ms @ '' '' @ utc_clock ms else format),
       chalk = example_chalk,
       toLocaleDateString = utc_date,
       traceLimit = 8,
       callSite = example_callSite,
       fails = (\<lambda>call. False) \<rparr>"

text \<open>
  A call site in user code: \<open>main\<close> in \<open>/srv/app/main.js\<close>, line 12, column 10, called
  from the top level of the module, which the module loader runs.
\<close>

definition user_stack :: "StackFrame list" where
  "user_stack =
     [\<lparr> fileName = Some ''/srv/app/main.js'', lineNumber = Some 12,
        functionName = Some ''main'', columnNumber = Some 10 \<rparr>,
      \<lparr> fileName = Some ''/srv/app/main.js'', lineNumber = Some 30,
        functionName = Some ''Object.<anonymous>'', columnNumber = Some 1 \<rparr>,
      \<lparr> fileName = Some ''node:internal/modules/cjs/loader'', lineNumber = Some 1554,
        functionName = Some ''Module._compile'', columnNumber = Some 14 \<rparr>]"

text \<open>
  The process right after \<open>Logger.createInstance()\<close>, the directory \<open>/srv/app\<close> being
  there and nothing below it, at 12:00:00 UTC on 2 March 2024.
\<close>

definition fresh_state :: state where
  "fresh_state =
     \<lparr> this = createInstance example_platform,
       fs = [''/srv/app'' \<mapsto> Directory 1700000000000],
       console = [],
       now = 1709380800000 \<rparr>"

text \<open>
  The same process a while later: the directory \<open>/srv/app/logs\<close> is there, and in it
  latest.log, a file created at \<open>created\<close> that holds one earlier line.
\<close>

definition logged_state :: "rat \<Rightarrow> state" where
  "logged_state created =
     fresh_state\<lparr>fs := [''/srv/app'' \<mapsto> Directory 1700000000000,
                        ''/srv/app/logs'' \<mapsto> Directory 1709000000000,
                        ''/srv/app/logs/latest.log'' \<mapsto> File created (''earlier line'' @ [CHR 0x0A])]\<rparr>"

text \<open>
  The new process with a line format that names the caller: function, file, line and
  column.
\<close>

definition located_state :: state where
  "located_state =
     fresh_state\<lparr>this := set_logFormat
       ''{functionName} at {fileName}:{lineNumber}:{columnNumber} {content}'' (this fresh_state)\<rparr>"

text \<open>The example platform on a file system that refuses the calls \<open>refused\<close> holds of.\<close>

definition refusing :: "(fs_call \<Rightarrow> bool) \<Rightarrow> platform" where
  "refusing refused = example_platform\<lparr>fails := refused\<rparr>"

fun is_Rename :: "fs_call \<Rightarrow> bool" where
  "is_Rename (Rename old new) = True"
| "is_Rename call = False"

fun is_AppendFile :: "fs_call \<Rightarrow> bool" where
  "is_AppendFile (AppendFile p) = True"
| "is_AppendFile call = False"

text \<open>The calls that change the file system: all but \<open>statSync\<close>.\<close>

fun is_write :: "fs_call \<Rightarrow> bool" where
  "is_write (Stat p) = False"
| "is_write call = True"

section \<open>Properties\<close>

subsection \<open>What the file-system calls and \<open>writeLine\<close> leave alone\<close>

lemma mkdirSync_keeps:
  "mkdirSync pf p s = (r, s') \<Longrightarrow> this s' = this s \<and> now s' = now s \<and> console s' = console s"
  by (auto simp: mkdirSync_def split: if_splits)

lemma renameSync_keeps:
  "renameSync pf old new s = (r, s') \<Longrightarrow> this s' = this s \<and> now s' = now s \<and> console s' = console s"
  by (auto simp: renameSync_def split: if_splits option.splits)

lemma appendFileSync_keeps:
  "appendFileSync pf p text s = (r, s') \<Longrightarrow> this s' = this s \<and> now s' = now s \<and> console s' = console s"
  by (auto simp: appendFileSync_def split: if_splits option.splits node.splits)

lemma writeFileSync_keeps:
  "writeFileSync pf p text s = (r, s') \<Longrightarrow> this s' = this s \<and> now s' = now s \<and> console s' = console s"
  by (auto simp: writeFileSync_def split: if_splits option.splits node.splits)

lemma try_append_keeps:
  assumes "try_append pf output message s = (r, s')"
  shows "this s' = this s \<and> now s' = now s \<and> console s' = console s"
proof (cases "statSync pf output s")
  case (Inl e)
  with assms show ?thesis by (simp add: try_append_def)
next
  case (Inr stat)
  let ?archive = "path_join pf (logPath (this s))
       (''output-'' @ toLocaleDateString pf (Date_of (birthtimeMs stat)) @ ''.log'')"
  show ?thesis
  proof (cases "of_int (now s) - birthtimeMs stat \<ge> 86400000")
    case False
    with assms Inr have "appendFileSync pf output (message @ [CHR 0x0A]) s = (r, s')"
      by (simp add: try_append_def)
    then show ?thesis by (rule appendFileSync_keeps)
  next
    case True
    obtain r1 s1 where ren: "renameSync pf output ?archive s = (r1, s1)"
      by (cases "renameSync pf output ?archive s")
    note k1 = renameSync_keeps [OF ren]
    show ?thesis
    proof (cases r1)
      case (Thrown e)
      with assms Inr True ren have "s' = s1" by (simp add: try_append_def)
      with k1 show ?thesis by simp
    next
      case Returned
      with assms Inr True ren
      have "appendFileSync pf output (message @ [CHR 0x0A]) s1 = (r, s')"
        by (simp add: try_append_def)
      from appendFileSync_keeps [OF this] k1 show ?thesis by simp
    qed
  qed
qed

lemma writeLine_keeps:
  assumes "writeLine pf lvl line stack s = (r, s')"
  shows "this s' = this s \<and> now s' = now s \<and> console s' = console s"
proof (cases "doWrite (this s)")
  case False
  with assms show ?thesis by (simp add: writeLine_def)
next
  case True
  obtain r1 s1 where mk:
    "(if \<not> existsSync (logPath (this s)) s then mkdirSync pf (logPath (this s)) s
      else (Returned, s)) = (r1, s1)"
    by (cases "if \<not> existsSync (logPath (this s)) s then mkdirSync pf (logPath (this s)) s
      else (Returned, s)")
  then have k1: "this s1 = this s \<and> now s1 = now s \<and> console s1 = console s"
    by (auto split: if_splits dest: mkdirSync_keeps)
  show ?thesis
  proof (cases r1)
    case (Thrown e)
    with assms True mk have "s' = s1" by (simp add: writeLine_def)
    with k1 show ?thesis by simp
  next
    case Returned
    let ?out = "path_join pf (logPath (this s1)) ''latest.log''"
    show ?thesis
    proof (cases "formatted pf (LEVEL_TAG lvl) line (callSite pf In_writeLine_at_getSync # stack) s1")
      case (Inl e)
      with assms True mk Returned have "s' = s1" by (simp add: writeLine_def)
      with k1 show ?thesis by simp
    next
      case (Inr message)
      obtain r2 s2 where ta: "try_append pf ?out message s1 = (r2, s2)"
        by (cases "try_append pf ?out message s1")
      note k2 = try_append_keeps [OF ta]
      show ?thesis
      proof (cases r2)
        case Returned2: Returned
        with assms True mk Returned Inr ta have "s' = s2" by (simp add: writeLine_def)
        with k1 k2 show ?thesis by simp
      next
        case (Thrown e)
        with assms True mk Returned Inr ta
        have "writeFileSync pf ?out (message @ [CHR 0x0A]) s2 = (r, s')"
          by (simp add: writeLine_def)
        from writeFileSync_keeps [OF this] k1 k2 show ?thesis by simp
      qed
    qed
  qed
qed

lemma log_entry_this:
  "this (snd (log_entry pf lvl args stack s)) = this s"
proof (cases "checkLevel lvl s")
  case False
  then show ?thesis by (simp add: log_entry_def)
next
  case True
  show ?thesis
  proof (cases "Array_join '' '' (parsed pf args)")
    case (Inl e)
    with True show ?thesis by (simp add: log_entry_def)
  next
    case (Inr line)
    obtain r1 s1 where wl: "writeLine pf lvl line (callSite pf In_log_at_writeLine # stack) s = (r1, s1)"
      by (cases "writeLine pf lvl line (callSite pf In_log_at_writeLine # stack) s")
    note k = writeLine_keeps [OF wl]
    with True Inr wl show ?thesis
      by (cases r1; cases lvl)
         (simp_all add: log_entry_def emit_def split: sum.splits)
  qed
qed

text \<open>
  C10: every per-level logging operation (debug, info, success, warning, error, notice),
  for any arguments and whether or not the level check filters the call out, and also
  when the call throws, leaves the five configuration fields of the logger (logPath,
  doWrite, _level, _timeFormat, _format) as they were.
\<close>

theorem C10_operations_keep_configuration:
  "logPath (this (snd (operation lvl pf args stack s))) = logPath (this s)
   \<and> doWrite (this (snd (operation lvl pf args stack s))) = doWrite (this s)
   \<and> u_level (this (snd (operation lvl pf args stack s))) = u_level (this s)
   \<and> u_timeFormat (this (snd (operation lvl pf args stack s))) = u_timeFormat (this s)
   \<and> u_format (this (snd (operation lvl pf args stack s))) = u_format (this s)"
proof -
  have "this (snd (operation lvl pf args stack s)) = this s"
    by (cases lvl)
       (simp_all add: debug_def info_def success_def warning_def error_def notice_def
          log_entry_this)
  then show ?thesis by simp
qed

subsection \<open>Configuration\<close>

text \<open>
  C9: for each of the five configuration properties (output directory, write-to-file
  flag, minimum level, time format, line format), setting it to a value and reading it
  back gives that value; on a new instance the directory is \<open>path.join(cwd, 'logs')\<close>,
  the minimum level is info and write-to-file is true.
\<close>

theorem C9_configuration_round_trip:
  "path (set_path dir lg) = dir
   \<and> writeFile (set_writeFile flag lg) = flag
   \<and> level (set_level lvl lg) = lvl
   \<and> timeFormat (set_timeFormat tf lg) = tf
   \<and> logFormat (set_logFormat f lg) = f
   \<and> path (createInstance pf) = path_join pf (cwd pf) ''logs''
   \<and> level (createInstance pf) = Info
   \<and> writeFile (createInstance pf) = True"
  by (simp add: path_def set_path_def writeFile_def set_writeFile_def level_def set_level_def
        timeFormat_def set_timeFormat_def logFormat_def set_logFormat_def createInstance_def)

subsection \<open>Filtering\<close>

text \<open>
  C4: for levels L1 and L2 with rank L1 below rank L2, and the minimum level set to L2,
  the per-level operation of L1 returns at once and leaves the whole state as it was:
  nothing on the console, no change to the files. The call returns normally whatever
  the arguments and the stack are, also where rendering the arguments or resolving the
  caller would throw, so neither is performed.
\<close>

theorem C4_filtered_call_does_nothing:
  assumes "rank l1 < rank l2" and "level (this s) = l2"
  shows "operation l1 pf args stack s = (Returned, s)"
proof -
  from assms have "\<not> checkLevel l1 s"
    by (simp add: checkLevel_def level_def)
  then have "log_entry pf l1 args (callSite pf (In_method l1) # stack) s = (Returned, s)"
    by (simp add: log_entry_def)
  then show ?thesis
    by (cases l1) (simp_all add: debug_def info_def success_def warning_def error_def notice_def)
qed

text \<open>
  The theorem at work: with the default minimum level info, \<open>debug\<close> returns and
  changes nothing, here on a symbol argument and a native caller frame, which an
  unfiltered call could not render or resolve.
\<close>

theorem C4_filtered_call_does_nothing_witness:
  "rank Debug < rank Info \<and> level (this fresh_state) = Info
   \<and> operation Debug example_platform [Symbol ''id'', String ''x'']
        [\<lparr> fileName = None, lineNumber = None, functionName = Some ''Array.forEach'', columnNumber = None \<rparr>]
        fresh_state = (Returned, fresh_state)"
proof -
  have lv: "level (this fresh_state) = Info"
    by (simp add: level_def fresh_state_def createInstance_def)
  have rk: "rank Debug < rank Info" by simp
  from C4_filtered_call_does_nothing [OF rk lv] rk lv show ?thesis by simp
qed

subsection \<open>A call that passes the level check\<close>

lemma formatted_cong:
  "this s1 = this s \<Longrightarrow> now s1 = now s \<Longrightarrow>
   formatted pf tag line stack s1 = formatted pf tag line stack s"
  by (simp add: formatted_def getTime_def)

lemma operation_log_entry:
  "operation lvl pf args stack s = log_entry pf lvl args (callSite pf (In_method lvl) # stack) s"
  by (cases lvl) (simp_all add: debug_def info_def success_def warning_def error_def notice_def)

lemma log_entry_passed:
  assumes "checkLevel lvl s"
  shows "log_entry pf lvl args stack s =
     (case Array_join '' '' (parsed pf args) of
        Inl e \<Rightarrow> (Thrown e, s)
      | Inr line \<Rightarrow>
          (case writeLine pf lvl line (callSite pf In_log_at_writeLine # stack) s of
             (Thrown e, s1) \<Rightarrow> (Thrown e, s1)
           | (Returned, s1) \<Rightarrow>
               (case formatted pf (LEVEL_COLOR pf lvl) line (callSite pf In_log_at_getSync # stack) s of
                  Inl e \<Rightarrow> (Thrown e, s1)
                | Inr message \<Rightarrow> (Returned, emit (if lvl = Error then Console_error
                              else if lvl = Warning then Console_warn
                              else Console_log) message s1))))"
proof (cases "Array_join '' '' (parsed pf args)")
  case (Inl e)
  with assms show ?thesis by (simp add: log_entry_def)
next
  case (Inr line)
  obtain r1 s1 where wl: "writeLine pf lvl line (callSite pf In_log_at_writeLine # stack) s = (r1, s1)"
    by (cases "writeLine pf lvl line (callSite pf In_log_at_writeLine # stack) s")
  from writeLine_keeps [OF wl]
  have "formatted pf (LEVEL_COLOR pf lvl) line (callSite pf In_log_at_getSync # stack) s1
      = formatted pf (LEVEL_COLOR pf lvl) line (callSite pf In_log_at_getSync # stack) s"
    by (intro formatted_cong) simp_all
  with assms Inr wl show ?thesis
    by (cases r1; cases lvl) (simp_all add: log_entry_def split: sum.splits)
qed

lemma operation_passed:
  assumes "rank (level (this s)) \<le> rank lvl"
  shows "operation lvl pf args stack s =
     (case Array_join '' '' (parsed pf args) of
        Inl e \<Rightarrow> (Thrown e, s)
      | Inr line \<Rightarrow>
          (case writeLine pf lvl line
                  (callSite pf In_log_at_writeLine # callSite pf (In_method lvl) # stack) s of
             (Thrown e, s1) \<Rightarrow> (Thrown e, s1)
           | (Returned, s1) \<Rightarrow>
               (case formatted pf (LEVEL_COLOR pf lvl) line
                       (callSite pf In_log_at_getSync # callSite pf (In_method lvl) # stack) s of
                  Inl e \<Rightarrow> (Thrown e, s1)
                | Inr message \<Rightarrow> (Returned, emit (if lvl = Error then Console_error
                              else if lvl = Warning then Console_warn
                              else Console_log) message s1))))"
proof -
  from assms have "checkLevel lvl s" by (simp add: checkLevel_def level_def)
  from log_entry_passed [OF this] show ?thesis by (simp add: operation_log_entry)
qed

text \<open>
  C8, amended: a call that passes the level check and returns without throwing has
  written the console-variant line (the format filled in with the coloured tag) with
  \<open>console.error\<close> when the level is error, with \<open>console.warn\<close> when it is
  warning, and with \<open>console.log\<close> for debug, info, success and notice, and has
  written nothing else to the console; a call that throws has written nothing to
  the console, on any stream.
\<close>

theorem C8_console_routing:
  assumes "rank (level (this s)) \<le> rank lvl"
      and "operation lvl pf args stack s = (r, s')"
  shows "(r = Returned
          \<and> (\<exists>line message.
                Array_join '' '' (parsed pf args) = Inr line
                \<and> formatted pf (LEVEL_COLOR pf lvl) line
                     (callSite pf In_log_at_getSync # callSite pf (In_method lvl) # stack) s
                   = Inr message
                \<and> console s' = console s
                     @ [(if lvl = Error then Console_error
                         else if lvl = Warning then Console_warn
                         else Console_log, message)]))
         \<or> ((\<exists>e. r = Thrown e) \<and> console s' = console s)"
proof (cases "Array_join '' '' (parsed pf args)")
  case (Inl e)
  with assms show ?thesis by (auto simp: operation_passed)
next
  case (Inr line)
  let ?stack = "callSite pf In_log_at_writeLine # callSite pf (In_method lvl) # stack"
  obtain r1 s1 where wl: "writeLine pf lvl line ?stack s = (r1, s1)"
    by (cases "writeLine pf lvl line ?stack s")
  from writeLine_keeps [OF wl] have c1: "console s1 = console s" by simp
  show ?thesis
  proof (cases r1)
    case (Thrown e)
    with assms Inr wl c1 show ?thesis by (auto simp: operation_passed)
  next
    case Returned
    from assms Inr wl c1 Returned show ?thesis
      by (auto simp: operation_passed emit_def split: sum.splits)
  qed
qed

subsection \<open>What \<open>writeLine\<close> leaves in the file when it returns\<close>

lemma writeFileSync_Returned:
  assumes "writeFileSync pf out text s = (Returned, s')"
  shows "\<exists>t. fs s' out = Some (File t text)"
  using assms
  by (auto simp: writeFileSync_def split: if_splits option.splits node.splits)

lemma appendFileSync_Returned:
  assumes "appendFileSync pf out text s = (Returned, s')"
  shows "\<exists>t prev. fs s' out = Some (File t (prev @ text))
           \<and> (prev = [] \<and> fs s out = None \<or> fs s out = Some (File t prev))"
  using assms
  by (auto simp: appendFileSync_def split: if_splits option.splits node.splits)

lemma renameSync_Returned:
  assumes "renameSync pf old new s = (Returned, s')"
  shows "\<exists>n. fs s old = Some n \<and> s' = s\<lparr>fs := ((fs s)(old := None))(new \<mapsto> n)\<rparr>"
  using assms
  by (auto simp: renameSync_def split: if_splits option.splits)

lemma try_append_Returned:
  assumes "try_append pf out message s = (Returned, s')"
  shows "\<exists>t prev. fs s' out = Some (File t (prev @ message @ [CHR 0x0A]))
           \<and> (prev = [] \<or> fs s out = Some (File t prev))"
proof (cases "statSync pf out s")
  case (Inl e)
  with assms show ?thesis by (simp add: try_append_def)
next
  case (Inr stat)
  then have here: "fs s out = Some stat"
    by (auto simp: statSync_def split: if_splits option.splits)
  let ?archive = "path_join pf (logPath (this s))
       (''output-'' @ toLocaleDateString pf (Date_of (birthtimeMs stat)) @ ''.log'')"
  show ?thesis
  proof (cases "of_int (now s) - birthtimeMs stat \<ge> 86400000")
    case False
    with assms Inr have "appendFileSync pf out (message @ [CHR 0x0A]) s = (Returned, s')"
      by (simp add: try_append_def)
    from appendFileSync_Returned [OF this] here show ?thesis by auto
  next
    case True
    obtain r1 s1 where ren: "renameSync pf out ?archive s = (r1, s1)"
      by (cases "renameSync pf out ?archive s")
    show ?thesis
    proof (cases r1)
      case (Thrown e)
      with assms Inr True ren show ?thesis by (simp add: try_append_def)
    next
      case Returned
      with assms Inr True ren
      have app: "appendFileSync pf out (message @ [CHR 0x0A]) s1 = (Returned, s')"
        by (simp add: try_append_def)
      from ren Returned renameSync_Returned [of pf out ?archive s s1]
      have s1: "s1 = s\<lparr>fs := ((fs s)(out := None))(?archive \<mapsto> stat)\<rparr>"
        using here by auto
      from appendFileSync_Returned [OF app] obtain t prev where
        res: "fs s' out = Some (File t (prev @ message @ [CHR 0x0A]))"
        and pr: "prev = [] \<and> fs s1 out = None \<or> fs s1 out = Some (File t prev)"
        by blast
      from pr show ?thesis
      proof
        assume "prev = [] \<and> fs s1 out = None"
        with res show ?thesis by blast
      next
        assume "fs s1 out = Some (File t prev)"
        with s1 here have "fs s out = Some (File t prev)"
          by (simp split: if_splits)
        with res show ?thesis by blast
      qed
    qed
  qed
qed

lemma writeLine_Returned:
  assumes "doWrite (this s)"
      and "writeLine pf lvl line stack s = (Returned, s')"
  shows "\<exists>message t prev.
           formatted pf (LEVEL_TAG lvl) line (callSite pf In_writeLine_at_getSync # stack) s = Inr message
           \<and> fs s' (path_join pf (logPath (this s)) ''latest.log'')
               = Some (File t (prev @ message @ [CHR 0x0A]))
           \<and> (prev = [] \<or> fs s (path_join pf (logPath (this s)) ''latest.log'') = Some (File t prev))"
proof -
  let ?dir = "logPath (this s)"
  let ?out = "path_join pf ?dir ''latest.log''"
  let ?stack = "callSite pf In_writeLine_at_getSync # stack"
  obtain r1 s1 where mk:
    "(if \<not> existsSync ?dir s then mkdirSync pf ?dir s else (Returned, s)) = (r1, s1)"
    by (cases "if \<not> existsSync ?dir s then mkdirSync pf ?dir s else (Returned, s)")
  have r1: "r1 = Returned"
    using assms mk by (cases r1) (simp_all add: writeLine_def)
  from mk have k1: "this s1 = this s \<and> now s1 = now s"
    by (auto split: if_splits dest: mkdirSync_keeps)
  from mk r1 have fs1: "s1 = s \<or> fs s1 = (fs s)(?dir \<mapsto> Directory (of_int (now s)))"
    by (auto simp: mkdirSync_def split: if_splits)
  have fmt: "formatted pf (LEVEL_TAG lvl) line ?stack s1 = formatted pf (LEVEL_TAG lvl) line ?stack s"
    using k1 by (intro formatted_cong) simp_all
  obtain message where msg: "formatted pf (LEVEL_TAG lvl) line ?stack s = Inr message"
    using assms mk r1 k1 fmt
    by (cases "formatted pf (LEVEL_TAG lvl) line ?stack s") (simp_all add: writeLine_def)
  obtain r2 s2 where ta: "try_append pf ?out message s1 = (r2, s2)"
    by (cases "try_append pf ?out message s1")
  have "\<exists>t prev. fs s' ?out = Some (File t (prev @ message @ [CHR 0x0A]))
           \<and> (prev = [] \<or> fs s1 ?out = Some (File t prev))"
  proof (cases r2)
    case Returned
    with assms mk r1 k1 fmt msg ta have "s' = s2" by (simp add: writeLine_def)
    with try_append_Returned [of pf ?out message s1 s2] ta Returned show ?thesis by simp
  next
    case (Thrown e)
    with assms mk r1 k1 fmt msg ta
    have "writeFileSync pf ?out (message @ [CHR 0x0A]) s2 = (Returned, s')"
      by (simp add: writeLine_def)
    from writeFileSync_Returned [OF this] show ?thesis by auto
  qed
  then obtain t prev where res: "fs s' ?out = Some (File t (prev @ message @ [CHR 0x0A]))"
    and pr: "prev = [] \<or> fs s1 ?out = Some (File t prev)" by blast
  from pr fs1 have "prev = [] \<or> fs s ?out = Some (File t prev)"
    by (auto split: if_splits)
  with msg res show ?thesis by blast
qed

text \<open>
  C7, amended: a per-level operation called while the minimum level is its own level or
  lower, and that returns without throwing, has made exactly one console call, and,
  when write-to-file is enabled, has put exactly one line into latest.log: the file
  holds the file-variant line and a newline, after what it held before (an append) or
  as its only contents (a new file, a rotated one, or the fallback write). When
  write-to-file is disabled the files are as they were.
\<close>

theorem C7_one_line_when_the_call_returns:
  assumes "rank (level (this s)) \<le> rank lvl"
      and "operation lvl pf args stack s = (Returned, s')"
  shows "(\<exists>out message. console s' = console s @ [(out, message)])
         \<and> (if doWrite (this s)
            then (\<exists>line message t prev.
                    Array_join '' '' (parsed pf args) = Inr line
                    \<and> formatted pf (LEVEL_TAG lvl) line
                         (callSite pf In_writeLine_at_getSync # callSite pf In_log_at_writeLine
                            # callSite pf (In_method lvl) # stack) s
                       = Inr message
                    \<and> fs s' (path_join pf (logPath (this s)) ''latest.log'')
                        = Some (File t (prev @ message @ [CHR 0x0A]))
                    \<and> (prev = []
                        \<or> fs s (path_join pf (logPath (this s)) ''latest.log'') = Some (File t prev)))
            else fs s' = fs s)"
proof -
  let ?stack = "callSite pf In_log_at_writeLine # callSite pf (In_method lvl) # stack"
  from assms obtain line where line: "Array_join '' '' (parsed pf args) = Inr line"
    by (cases "Array_join '' '' (parsed pf args)") (simp_all add: operation_passed)
  obtain r1 s1 where wl: "writeLine pf lvl line ?stack s = (r1, s1)"
    by (cases "writeLine pf lvl line ?stack s")
  from assms line wl have r1: "r1 = Returned"
    by (cases r1) (simp_all add: operation_passed)
  from assms line wl r1 obtain message where
    s': "s' = emit (if lvl = Error then Console_error
                              else if lvl = Warning then Console_warn
                              else Console_log) message s1"
    by (auto simp: operation_passed split: sum.splits)
  from writeLine_keeps [OF wl] have c1: "console s1 = console s" by simp
  have one: "\<exists>out message. console s' = console s @ [(out, message)]"
    using s' c1 by (auto simp: emit_def)
  have fs': "fs s' = fs s1" using s' by (simp add: emit_def)
  show ?thesis
  proof (cases "doWrite (this s)")
    case False
    with wl have "s1 = s" by (simp add: writeLine_def)
    with one fs' False show ?thesis by simp
  next
    case True
    from writeLine_Returned [OF True] wl r1 line fs' one True show ?thesis
      by (simp del: append.simps)
  qed
qed

subsection \<open>Rotation\<close>

lemma writeLine_unfold:
  assumes "doWrite (this s)" and "existsSync (logPath (this s)) s"
      and "formatted pf (LEVEL_TAG lvl) line (callSite pf In_writeLine_at_getSync # stack) s = Inr message"
  shows "writeLine pf lvl line stack s =
     (case try_append pf (path_join pf (logPath (this s)) ''latest.log'') message s of
        (Returned, s2) \<Rightarrow> (Returned, s2)
      | (Thrown caught, s2) \<Rightarrow>
          writeFileSync pf (path_join pf (logPath (this s)) ''latest.log'') (message @ [CHR 0x0A]) s2)"
  using assms by (simp add: writeLine_def Let_def)

text \<open>
  C1: a rotating append (\<open>writeLine\<close> with write-to-file enabled) that finds latest.log
  as a file created at \<open>created\<close>, on a file system that performs the calls it is asked
  for. If now minus \<open>created\<close> is at least 86 400 000 ms, the file is renamed to
  \<open>output-<en-CA date of created>.log\<close>, keeping its contents and birth time, and a new
  latest.log holds only the new line. Otherwise nothing is renamed and latest.log holds
  its earlier contents followed by the new line.
\<close>

theorem C1_rotating_append:
  assumes "doWrite (this s)"
      and "existsSync (logPath (this s)) s"
      and "output = path_join pf (logPath (this s)) ''latest.log''"
      and "archive = path_join pf (logPath (this s))
                       (''output-'' @ toLocaleDateString pf (Date_of created) @ ''.log'')"
      and "fs s output = Some (File created earlier)"
      and "formatted pf (LEVEL_TAG lvl) line (callSite pf In_writeLine_at_getSync # stack) s = Inr message"
      and "\<not> fails pf (Stat output)" and "\<not> fails pf (AppendFile output)"
      and "\<not> fails pf (Rename output archive)" and "\<not> is_Directory (fs s archive)"
      and "archive \<noteq> output"
  shows "writeLine pf lvl line stack s =
           (Returned,
            if of_int (now s) - created \<ge> 86400000
            then s\<lparr>fs := (fs s)(output := None, archive \<mapsto> File created earlier,
                               output \<mapsto> File (of_int (now s)) (message @ [CHR 0x0A]))\<rparr>
            else s\<lparr>fs := (fs s)(output \<mapsto> File created (earlier @ message @ [CHR 0x0A]))\<rparr>)"
proof -
  have stat: "statSync pf output s = Inr (File created earlier)"
    using assms by (simp add: statSync_def)
  show ?thesis
  proof (cases "of_int (now s) - created \<ge> 86400000")
    case False
    have "try_append pf output message s
        = (Returned, s\<lparr>fs := (fs s)(output \<mapsto> File created (earlier @ message @ [CHR 0x0A]))\<rparr>)"
      using assms stat False by (simp add: try_append_def appendFileSync_def)
    with assms False show ?thesis by (simp add: writeLine_unfold)
  next
    case True
    have ren: "renameSync pf output archive s
        = (Returned, s\<lparr>fs := (fs s)(output := None, archive \<mapsto> File created earlier)\<rparr>)"
      using assms by (simp add: renameSync_def)
    have "try_append pf output message s
        = (Returned, s\<lparr>fs := (fs s)(output := None, archive \<mapsto> File created earlier,
                               output \<mapsto> File (of_int (now s)) (message @ [CHR 0x0A]))\<rparr>)"
      using assms stat True ren by (simp add: try_append_def appendFileSync_def)
    with assms True show ?thesis by (simp add: writeLine_unfold)
  qed
qed

subsection \<open>Failures of the file system\<close>

lemma try_append_Thrown:
  assumes "try_append pf out message s = (Thrown e, s1)"
  shows "this s1 = this s \<and> now s1 = now s \<and> (fs s1 out = fs s out \<or> fs s1 out = None)"
proof (cases "statSync pf out s")
  case (Inl e')
  with assms show ?thesis by (simp add: try_append_def)
next
  case (Inr stat)
  then have here: "fs s out = Some stat"
    by (auto simp: statSync_def split: if_splits option.splits)
  let ?archive = "path_join pf (logPath (this s))
       (''output-'' @ toLocaleDateString pf (Date_of (birthtimeMs stat)) @ ''.log'')"
  have app: "appendFileSync pf out data s0 = (Thrown e, s1) \<Longrightarrow> s1 = s0" for data s0
    by (auto simp: appendFileSync_def split: if_splits option.splits node.splits)
  show ?thesis
  proof (cases "of_int (now s) - birthtimeMs stat \<ge> 86400000")
    case False
    with assms Inr have "appendFileSync pf out (message @ [CHR 0x0A]) s = (Thrown e, s1)"
      by (simp add: try_append_def)
    from app [OF this] show ?thesis by simp
  next
    case True
    obtain r1 s2 where ren: "renameSync pf out ?archive s = (r1, s2)"
      by (cases "renameSync pf out ?archive s")
    show ?thesis
    proof (cases r1)
      case (Thrown e')
      with ren have "s2 = s" by (auto simp: renameSync_def split: if_splits option.splits)
      with assms Inr True ren Thrown show ?thesis by (simp add: try_append_def)
    next
      case Returned
      with assms Inr True ren
      have "appendFileSync pf out (message @ [CHR 0x0A]) s2 = (Thrown e, s1)"
        by (simp add: try_append_def)
      from app [OF this] have "s1 = s2" .
      moreover from ren Returned renameSync_Returned [of pf out ?archive s s2] here
      have "s2 = s\<lparr>fs := ((fs s)(out := None))(?archive \<mapsto> stat)\<rparr>" by auto
      ultimately show ?thesis using here by simp
    qed
  qed
qed

lemma try_append_fails:
  assumes "fails pf (Stat out) \<or> fails pf (AppendFile out)
           \<or> (\<exists>n. fs s out = Some n \<and> of_int (now s) - birthtimeMs n \<ge> 86400000
                  \<and> fails pf (Rename out (path_join pf (logPath (this s))
                        (''output-'' @ toLocaleDateString pf (Date_of (birthtimeMs n)) @ ''.log''))))"
  shows "\<exists>e s1. try_append pf out message s = (Thrown e, s1)"
proof (cases "statSync pf out s")
  case (Inl e')
  then show ?thesis by (simp add: try_append_def)
next
  case (Inr stat)
  then have here: "fs s out = Some stat" and st: "\<not> fails pf (Stat out)"
    by (auto simp: statSync_def split: if_splits option.splits)
  let ?archive = "path_join pf (logPath (this s))
       (''output-'' @ toLocaleDateString pf (Date_of (birthtimeMs stat)) @ ''.log'')"
  have app: "fails pf (AppendFile out) \<Longrightarrow> \<exists>e s1. appendFileSync pf out data s0 = (Thrown e, s1)" for data s0
    by (simp add: appendFileSync_def)
  show ?thesis
  proof (cases "of_int (now s) - birthtimeMs stat \<ge> 86400000")
    case False
    with assms here st have "fails pf (AppendFile out)" by auto
    from app [OF this] Inr False show ?thesis by (simp add: try_append_def)
  next
    case True
    obtain r1 s2 where ren: "renameSync pf out ?archive s = (r1, s2)"
      by (cases "renameSync pf out ?archive s")
    show ?thesis
    proof (cases r1)
      case (Thrown e')
      with Inr True ren show ?thesis by (simp add: try_append_def)
    next
      case Returned
      with ren have "\<not> fails pf (Rename out ?archive)"
        by (auto simp: renameSync_def split: if_splits)
      with assms here st True have "fails pf (AppendFile out)" by auto
      from app [OF this] Inr True ren Returned show ?thesis by (simp add: try_append_def)
    qed
  qed
qed

lemma writeLine_falls_back:
  assumes "doWrite (this s)" and "existsSync (logPath (this s)) s"
      and "out = path_join pf (logPath (this s)) ''latest.log''"
      and "formatted pf (LEVEL_TAG lvl) line (callSite pf In_writeLine_at_getSync # stack) s = Inr message"
      and "fails pf (Stat out) \<or> fails pf (AppendFile out)
           \<or> (\<exists>n. fs s out = Some n \<and> of_int (now s) - birthtimeMs n \<ge> 86400000
                  \<and> fails pf (Rename out (path_join pf (logPath (this s))
                        (''output-'' @ toLocaleDateString pf (Date_of (birthtimeMs n)) @ ''.log''))))"
      and "\<not> is_Directory (fs s out)"
  shows "(if fails pf (WriteFile out)
          then (\<exists>s'. writeLine pf lvl line stack s = (Thrown (SystemError (WriteFile out)), s'))
          else (\<exists>s' t. writeLine pf lvl line stack s = (Returned, s')
                  \<and> fs s' out = Some (File t (message @ [CHR 0x0A]))))"
proof -
  from try_append_fails [OF assms(5)] obtain e s1 where
    ta: "try_append pf out message s = (Thrown e, s1)" by blast
  with assms have wl: "writeLine pf lvl line stack s = writeFileSync pf out (message @ [CHR 0x0A]) s1"
    by (simp add: writeLine_unfold)
  from try_append_Thrown [OF ta] have "fs s1 out = fs s out \<or> fs s1 out = None" by simp
  with assms(6) show ?thesis
    unfolding wl
    by (cases "fs s out"; cases "fs s1 out")
       (auto simp: writeFileSync_def split: node.splits option.splits)
qed

lemma formatted_throws:
  "formatted pf tag line stack s = Inl e \<Longrightarrow> e = TypeError"
  by (auto simp: formatted_def locate_def Let_def split: if_splits option.splits)

lemma writeLine_throws:
  assumes "writeLine pf lvl line stack s = (Thrown e, s')"
  shows "e = TypeError \<or> e = SystemError (Mkdir (logPath (this s)))
         \<or> e = SystemError (WriteFile (path_join pf (logPath (this s)) ''latest.log''))"
proof -
  let ?dir = "logPath (this s)"
  let ?out = "path_join pf ?dir ''latest.log''"
  let ?stack = "callSite pf In_writeLine_at_getSync # stack"
  from assms have dw: "doWrite (this s)" by (auto simp: writeLine_def split: if_splits)
  obtain r1 s1 where mk:
    "(if \<not> existsSync ?dir s then mkdirSync pf ?dir s else (Returned, s)) = (r1, s1)"
    by (cases "if \<not> existsSync ?dir s then mkdirSync pf ?dir s else (Returned, s)")
  from mk have k1: "this s1 = this s"
    by (auto split: if_splits dest: mkdirSync_keeps)
  show ?thesis
  proof (cases r1)
    case (Thrown e1)
    with mk have "e1 = SystemError (Mkdir ?dir)"
      by (auto simp: mkdirSync_def split: if_splits)
    with assms dw mk Thrown show ?thesis by (simp add: writeLine_def)
  next
    case Returned
    show ?thesis
    proof (cases "formatted pf (LEVEL_TAG lvl) line ?stack s1")
      case (Inl e1)
      with assms dw mk Returned formatted_throws [OF Inl] show ?thesis
        by (simp add: writeLine_def)
    next
      case (Inr message)
      obtain r2 s2 where ta: "try_append pf ?out message s1 = (r2, s2)"
        by (cases "try_append pf ?out message s1")
      show ?thesis
      proof (cases r2)
        case Returned2: Returned
        with assms dw mk Returned Inr ta k1 show ?thesis by (simp add: writeLine_def)
      next
        case (Thrown e2)
        with assms dw mk Returned Inr ta k1
        have "writeFileSync pf ?out (message @ [CHR 0x0A]) s2 = (Thrown e, s')"
          by (simp add: writeLine_def)
        then show ?thesis
          by (auto simp: writeFileSync_def split: if_splits option.splits node.splits)
      qed
    qed
  qed
qed

text \<open>
  C2, amended: when, during the rotating append, reading the stats of latest.log,
  renaming it or appending to it fails, the error is caught and the line is written
  with \<open>writeFileSync\<close>, which replaces what the file held. The logging call then
  throws no file-system error and latest.log holds the new line alone; only when
  that fresh write is refused too does its error leave the logging call, before
  anything is written to the console.
\<close>

theorem C2_failures_fall_back_to_a_fresh_write:
  assumes "rank (level (this s)) \<le> rank lvl"
      and "Array_join '' '' (parsed pf args) = Inr line"
      and "doWrite (this s)" and "existsSync (logPath (this s)) s"
      and "out = path_join pf (logPath (this s)) ''latest.log''"
      and "formatted pf (LEVEL_TAG lvl) line
             (callSite pf In_writeLine_at_getSync # callSite pf In_log_at_writeLine
                # callSite pf (In_method lvl) # stack) s = Inr message"
      and "fails pf (Stat out) \<or> fails pf (AppendFile out)
           \<or> (\<exists>n. fs s out = Some n \<and> of_int (now s) - birthtimeMs n \<ge> 86400000
                  \<and> fails pf (Rename out (path_join pf (logPath (this s))
                        (''output-'' @ toLocaleDateString pf (Date_of (birthtimeMs n)) @ ''.log''))))"
      and "\<not> is_Directory (fs s out)"
  shows "if fails pf (WriteFile out)
         then (\<exists>s'. operation lvl pf args stack s = (Thrown (SystemError (WriteFile out)), s')
                 \<and> console s' = console s)
         else (\<exists>r s' t. operation lvl pf args stack s = (r, s')
                 \<and> (\<forall>call. r \<noteq> Thrown (SystemError call))
                 \<and> fs s' out = Some (File t (message @ [CHR 0x0A])))"
proof -
  let ?wstack = "callSite pf In_log_at_writeLine # callSite pf (In_method lvl) # stack"
  let ?cstack = "callSite pf In_log_at_getSync # callSite pf (In_method lvl) # stack"
  note fb = writeLine_falls_back [OF assms(3) assms(4) assms(5) assms(6) assms(7) assms(8)]
  show ?thesis
  proof (cases "fails pf (WriteFile out)")
    case True
    with fb obtain s' where
      wl: "writeLine pf lvl line ?wstack s = (Thrown (SystemError (WriteFile out)), s')"
      by auto
    from writeLine_keeps [OF wl] have "console s' = console s" by simp
    with True assms(1,2) wl show ?thesis by (simp add: operation_passed)
  next
    case False
    with fb obtain s1 t where
      wl: "writeLine pf lvl line ?wstack s = (Returned, s1)"
      and f1: "fs s1 out = Some (File t (message @ [CHR 0x0A]))"
      by auto
    show ?thesis
    proof (cases "formatted pf (LEVEL_COLOR pf lvl) line ?cstack s")
      case (Inl e)
      from formatted_throws [OF Inl] have "e = TypeError" .
      with False assms(1,2) wl f1 Inl show ?thesis by (simp add: operation_passed)
    next
      case (Inr console_line)
      with False assms(1,2) wl f1 show ?thesis by (simp add: operation_passed emit_def)
    qed
  qed
qed

subsection \<open>Content rendering\<close>

lemma join_element_parsed:
  assumes "\<forall>d. arg \<noteq> Symbol d"
  shows "join_element (if typeof arg = ''object'' then String (inspect pf arg) else arg)
         = Inr (if typeof arg = ''object'' then inspect pf arg
                else if arg = Undefined then [] else natural_string arg)"
  using assms by (cases arg) (simp_all add: join_element_def)

lemma Array_join_parsed:
  assumes "\<forall>d. Symbol d \<notin> set args"
  shows "Array_join sep (parsed pf args)
         = Inr (joined sep (map (\<lambda>arg. if typeof arg = ''object'' then inspect pf arg
                                       else if arg = Undefined then [] else natural_string arg) args))"
  using assms
proof (induction args rule: induct_list012)
  case 1
  then show ?case by (simp add: parsed_def)
next
  case (2 x)
  then have "\<forall>d. x \<noteq> Symbol d" by auto
  from join_element_parsed [OF this, of pf] show ?case
    by (simp only: parsed_def list.map Array_join.simps joined.simps)
next
  case (3 x y zs)
  then have x: "\<forall>d. x \<noteq> Symbol d" and rest: "\<forall>d. Symbol d \<notin> set (y # zs)" by auto
  from 3(2) [OF rest] join_element_parsed [OF x, of pf] show ?case
    by (simp only: parsed_def list.map Array_join.simps joined.simps sum.case)
qed

lemma Array_join_symbol:
  "Symbol d \<in> set args \<Longrightarrow> Array_join sep (parsed pf args) = Inl TypeError"
proof (induction args rule: induct_list012)
  case 1
  then show ?case by simp
next
  case (2 x)
  then have "x = Symbol d" by simp
  then show ?case by (simp add: parsed_def join_element_def)
next
  case (3 x y zs)
  show ?case
  proof (cases "x = Symbol d")
    case True
    then show ?thesis by (simp add: parsed_def join_element_def)
  next
    case False
    with 3 have "Array_join sep (parsed pf (y # zs)) = Inl TypeError" by simp
    then show ?thesis
      by (cases x) (simp_all add: parsed_def join_element_def)
  qed
qed

text \<open>
  C6, amended: for every list of arguments that holds no symbol, the content string is
  the rendered arguments joined with single spaces, where a value whose \<open>typeof\<close> is
  \<open>object\<close> (an object or null) is rendered by \<open>inspect\<close>, undefined is rendered as
  the empty string, and every other value (a function too, as its source text) by its
  natural string form; the arguments ("hello", 3, "args") give "hello 3 args".
\<close>

theorem C6_content_rendering:
  assumes "\<forall>d. Symbol d \<notin> set args"
  shows "Array_join '' '' (parsed pf args)
           = Inr (joined '' '' (map (\<lambda>arg. if typeof arg = ''object'' then inspect pf arg
                                          else if arg = Undefined then []
                                          else natural_string arg) args))
         \<and> Array_join '' '' (parsed pf [String ''hello'', Number 3, String ''args''])
           = Inr ''hello 3 args''"
proof -
  have "Number_toString 3 = ''3''"
    by (simp add: Number_toString_def digits.simps digit_def)
  then have "Array_join '' '' (parsed pf [String ''hello'', Number 3, String ''args''])
           = Inr ''hello 3 args''"
    by (simp add: parsed_def join_element_def)
  with Array_join_parsed [OF assms] show ?thesis by simp
qed

section \<open>Runs on the example platform\<close>

subsection \<open>Paths through \<open>writeLine\<close> and a whole call\<close>

lemma formatted_at_frame:
  assumes "3 \<le> traceLimit pf" and "3 \<le> length stack"
  shows "formatted pf tag line stack s
         = locate (stack ! 2) (fill (u_format (this s)) (getTime pf s) tag line)"
  using assms by (simp add: formatted_def getSync_def Let_def)

lemma writeLine_creates:
  assumes "doWrite (this s)"
      and "dir = logPath (this s)" and "out = path_join pf dir ''latest.log''"
      and "fs s dir = None" and "fs s out = None" and "dir \<noteq> out"
      and "\<not> fails pf (Mkdir dir)" and "\<not> fails pf (WriteFile out)"
      and "formatted pf (LEVEL_TAG lvl) line (callSite pf In_writeLine_at_getSync # stack) s = Inr message"
  shows "writeLine pf lvl line stack s
         = (Returned, s\<lparr>fs := (fs s)(dir \<mapsto> Directory (of_int (now s)),
                                    out \<mapsto> File (of_int (now s)) (message @ [CHR 0x0A]))\<rparr>)"
proof -
  let ?s1 = "s\<lparr>fs := (fs s)(dir \<mapsto> Directory (of_int (now s)))\<rparr>"
  have mk: "mkdirSync pf dir s = (Returned, ?s1)"
    using assms by (simp add: mkdirSync_def)
  have fmt: "formatted pf (LEVEL_TAG lvl) line (callSite pf In_writeLine_at_getSync # stack) ?s1 = Inr message"
    using assms(9) by (simp add: formatted_def getTime_def)
  have ta: "try_append pf out message ?s1 = (Thrown (SystemError (Stat out)), ?s1)"
    using assms by (simp add: try_append_def statSync_def)
  have wr: "writeFileSync pf out (message @ [CHR 0x0A]) ?s1
            = (Returned, s\<lparr>fs := (fs s)(dir \<mapsto> Directory (of_int (now s)),
                                    out \<mapsto> File (of_int (now s)) (message @ [CHR 0x0A]))\<rparr>)"
    using assms by (simp add: writeFileSync_def)
  show ?thesis
    using assms(1-4) mk fmt ta wr by (simp add: writeLine_def existsSync_def Let_def)
qed

lemma writeLine_mkdir_refused:
  assumes "doWrite (this s)" and "fs s (logPath (this s)) = None"
      and "fails pf (Mkdir (logPath (this s)))"
  shows "writeLine pf lvl line stack s = (Thrown (SystemError (Mkdir (logPath (this s)))), s)"
  using assms by (simp add: writeLine_def existsSync_def mkdirSync_def)

lemma writeLine_rename_refused:
  assumes "doWrite (this s)" and "existsSync (logPath (this s)) s"
      and "out = path_join pf (logPath (this s)) ''latest.log''"
      and "fs s out = Some (File created earlier)"
      and "of_int (now s) - created \<ge> 86400000"
      and "\<not> fails pf (Stat out)"
      and "fails pf (Rename out (path_join pf (logPath (this s))
                       (''output-'' @ toLocaleDateString pf (Date_of created) @ ''.log'')))"
      and "\<not> fails pf (WriteFile out)"
      and "formatted pf (LEVEL_TAG lvl) line (callSite pf In_writeLine_at_getSync # stack) s = Inr message"
  shows "writeLine pf lvl line stack s
         = (Returned, s\<lparr>fs := (fs s)(out \<mapsto> File created (message @ [CHR 0x0A]))\<rparr>)"
proof -
  have "try_append pf out message s
        = (Thrown (SystemError (Rename out (path_join pf (logPath (this s))
                       (''output-'' @ toLocaleDateString pf (Date_of created) @ ''.log'')))), s)"
    using assms by (simp add: try_append_def statSync_def renameSync_def)
  moreover have "writeFileSync pf out (message @ [CHR 0x0A]) s
        = (Returned, s\<lparr>fs := (fs s)(out \<mapsto> File created (message @ [CHR 0x0A]))\<rparr>)"
    using assms by (simp add: writeFileSync_def)
  ultimately show ?thesis using assms by (simp add: writeLine_unfold)
qed

lemma operation_returns:
  assumes "rank (level (this s)) \<le> rank lvl"
      and "Array_join '' '' (parsed pf args) = Inr line"
      and "writeLine pf lvl line
             (callSite pf In_log_at_writeLine # callSite pf (In_method lvl) # stack) s = (Returned, s1)"
      and "formatted pf (LEVEL_COLOR pf lvl) line
             (callSite pf In_log_at_getSync # callSite pf (In_method lvl) # stack) s = Inr message"
  shows "operation lvl pf args stack s
         = (Returned, emit (if lvl = Error then Console_error
                            else if lvl = Warning then Console_warn
                            else Console_log) message s1)"
  using assms by (simp add: operation_passed)

lemma operation_throws:
  assumes "rank (level (this s)) \<le> rank lvl"
      and "Array_join '' '' (parsed pf args) = Inr line"
      and "writeLine pf lvl line
             (callSite pf In_log_at_writeLine # callSite pf (In_method lvl) # stack) s = (Thrown e, s1)"
  shows "operation lvl pf args stack s = (Thrown e, s1)"
  using assms by (simp add: operation_passed)

lemma one_arg: "Array_join '' '' (parsed pf [String v]) = Inr v"
  by (simp add: parsed_def join_element_def)

subsection \<open>The example platform at work\<close>

lemma example_noon:
  "toFormat example_platform 1709380800000 ''D TT'' = ''2024-03-02 12:00:00''"
  by code_simp

lemma example_archive:
  "toLocaleDateString example_platform (Date_of 1709294399999) = ''2024-03-01''"
  by code_simp

lemma refusing_fields:
  "path_join (refusing f) dir name = dir @ ''/'' @ name"
  "toFormat (refusing f) = toFormat example_platform"
  "chalk (refusing f) = example_chalk"
  "toLocaleDateString (refusing f) = toLocaleDateString example_platform"
  "traceLimit (refusing f) = 8"
  "callSite (refusing f) = example_callSite"
  "fails (refusing f) = f"
  by (simp_all add: refusing_def example_platform_def)

lemma fresh_fields:
  "logPath (this fresh_state) = ''/srv/app/logs''"
  "doWrite (this fresh_state)"
  "u_level (this fresh_state) = Info"
  "u_timeFormat (this fresh_state) = ''D TT''"
  "u_format (this fresh_state) = ''{time} [{level}] {content}''"
  "now fresh_state = 1709380800000"
  "console fresh_state = []"
  "fs fresh_state ''/srv/app/logs'' = None"
  "fs fresh_state ''/srv/app/logs/latest.log'' = None"
  by (simp_all add: fresh_state_def createInstance_def example_platform_def)

lemma logged_this:
  "logPath (this (logged_state created)) = ''/srv/app/logs''"
  "doWrite (this (logged_state created))"
  "u_level (this (logged_state created)) = Info"
  "u_timeFormat (this (logged_state created)) = ''D TT''"
  "u_format (this (logged_state created)) = ''{time} [{level}] {content}''"
  by (simp_all add: logged_state_def fresh_fields)

lemma logged_now: "now (logged_state created) = 1709380800000"
  by (simp add: logged_state_def fresh_fields)

lemma logged_console: "console (logged_state created) = []"
  by (simp add: logged_state_def fresh_fields)

lemma logged_files:
  "fs (logged_state created) ''/srv/app/logs'' = Some (Directory 1709000000000)"
  "fs (logged_state created) ''/srv/app/logs/latest.log''
     = Some (File created (''earlier line'' @ [CHR 0x0A]))"
  "fs (logged_state created) ''/srv/app/logs/output-2024-03-01.log'' = None"
  by (simp_all add: logged_state_def)

lemma located_fields:
  "logPath (this located_state) = ''/srv/app/logs''"
  "doWrite (this located_state)"
  "u_level (this located_state) = Info"
  "u_timeFormat (this located_state) = ''D TT''"
  "u_format (this located_state) = ''{functionName} at {fileName}:{lineNumber}:{columnNumber} {content}''"
  "now located_state = 1709380800000"
  "console located_state = []"
  "fs located_state ''/srv/app/logs'' = None"
  "fs located_state ''/srv/app/logs/latest.log'' = None"
  by (simp_all add: located_state_def set_logFormat_def fresh_fields)

text \<open>Formatting on the example platform, from its pieces.\<close>

lemma formatted_example:
  assumes "toFormat pf 1709380800000 ''D TT'' = ''2024-03-02 12:00:00''"
      and "3 \<le> traceLimit pf"
      and "stack ! 2 = frame" and "3 \<le> length stack"
      and "u_format (this s) = format"
      and "u_timeFormat (this s) = ''D TT''" and "now s = 1709380800000"
      and "fill format ''2024-03-02 12:00:00'' tag line = filled"
      and "locate frame filled = result"
  shows "formatted pf tag line stack s = result"
proof -
  have "getTime pf s = ''2024-03-02 12:00:00''"
    using assms by (simp add: getTime_def)
  with assms show ?thesis by (simp add: formatted_at_frame)
qed

lemma refusing_noon:
  "toFormat (refusing f) 1709380800000 ''D TT'' = ''2024-03-02 12:00:00''"
  by (simp add: refusing_fields example_noon)

lemma example_limit: "3 \<le> traceLimit example_platform"
  by (simp add: example_platform_def)

lemma refusing_limit: "3 \<le> traceLimit (refusing f)"
  by (simp add: refusing_fields)

lemma file_frame:
  "(callSite pf In_writeLine_at_getSync # callSite pf In_log_at_writeLine
      # callSite pf (In_method lvl) # stack) ! 2 = callSite pf (In_method lvl)"
  by simp

lemma console_frame:
  "(callSite pf In_log_at_getSync # callSite pf (In_method lvl) # user_stack) ! 2 = user_stack ! 0"
  by simp

lemma file_depth:
  "3 \<le> length (callSite pf In_writeLine_at_getSync # callSite pf In_log_at_writeLine
      # callSite pf (In_method lvl) # stack)"
  by simp

lemma console_depth:
  "3 \<le> length (callSite pf In_log_at_getSync # callSite pf (In_method lvl) # user_stack)"
  by (simp add: user_stack_def)

text \<open>The first call of a process on the example platform: neither the directory nor the file is there.\<close>

lemma example_first_call:
  assumes "rank (level (this s)) \<le> rank lvl" and "doWrite (this s)"
      and "logPath (this s) = ''/srv/app/logs''"
      and "fs s ''/srv/app/logs'' = None" and "fs s ''/srv/app/logs/latest.log'' = None"
      and "Array_join '' '' (parsed example_platform args) = Inr line"
      and "formatted example_platform (LEVEL_TAG lvl) line
             (callSite example_platform In_writeLine_at_getSync
                # callSite example_platform In_log_at_writeLine
                # callSite example_platform (In_method lvl) # stack) s = Inr file_line"
      and "formatted example_platform (LEVEL_COLOR example_platform lvl) line
             (callSite example_platform In_log_at_getSync
                # callSite example_platform (In_method lvl) # stack) s = Inr console_line"
  shows "operation lvl example_platform args stack s
         = (Returned,
            s\<lparr>fs := (fs s)(''/srv/app/logs'' \<mapsto> Directory (of_int (now s)),
                             ''/srv/app/logs/latest.log'' \<mapsto> File (of_int (now s)) (file_line @ [CHR 0x0A])),
              console := console s
                @ [(if lvl = Error then Console_error
                    else if lvl = Warning then Console_warn
                    else Console_log, console_line)]\<rparr>)"
proof -
  have wl: "writeLine example_platform lvl line
      (callSite example_platform In_log_at_writeLine # callSite example_platform (In_method lvl) # stack) s
    = (Returned, s\<lparr>fs := (fs s)
           (''/srv/app/logs'' \<mapsto> Directory (of_int (now s)),
            ''/srv/app/logs/latest.log'' \<mapsto> File (of_int (now s)) (file_line @ [CHR 0x0A]))\<rparr>)"
  proof (rule writeLine_creates [OF assms(2) _ _ assms(4) assms(5) _ _ _ assms(7)])
    show "''/srv/app/logs'' = logPath (this s)" using assms(3) by simp
    show "''/srv/app/logs/latest.log'' = path_join example_platform ''/srv/app/logs'' ''latest.log''"
      by (simp add: example_platform_def)
    show "''/srv/app/logs'' \<noteq> ''/srv/app/logs/latest.log''" by simp
    show "\<not> fails example_platform (Mkdir ''/srv/app/logs'')" by (simp add: example_platform_def)
    show "\<not> fails example_platform (WriteFile ''/srv/app/logs/latest.log'')"
      by (simp add: example_platform_def)
  qed
  from operation_returns [OF assms(1) assms(6) wl assms(8)]
  show ?thesis by (simp add: emit_def)
qed

subsection \<open>Caller location in the two variants\<close>

text \<open>
  The frame at index 2 of the trace that \<open>log\<close> takes is the head of the caller's
  stack; the frame at index 2 of the trace that \<open>writeLine\<close> takes is the frame of the
  per-level method.
\<close>

lemma trace_in_log:
  assumes "3 \<le> traceLimit pf"
  shows "getSync pf (callSite pf In_log_at_getSync # callSite pf (In_method lvl) # caller # stack) ! 2
         = caller"
  using assms by (simp add: getSync_def)

lemma trace_in_writeLine:
  assumes "3 \<le> traceLimit pf"
  shows "getSync pf (callSite pf In_writeLine_at_getSync # callSite pf In_log_at_writeLine
                      # callSite pf (In_method lvl) # stack) ! 2
         = callSite pf (In_method lvl)"
  using assms by (simp add: getSync_def)

lemma located_fill:
  "fill ''{functionName} at {fileName}:{lineNumber}:{columnNumber} {content}''
     ''2024-03-02 12:00:00'' tag ''x''
   = ''{functionName} at {fileName}:{lineNumber}:{columnNumber} x''"
  by (simp add: fill_def replace_def)

lemma located_user:
  "locate (user_stack ! 0) ''{functionName} at {fileName}:{lineNumber}:{columnNumber} x''
   = Inr ''main at /srv/app/main.js:12:10 x''"
  by (simp add: user_stack_def locate_def replace_def digits.simps digit_def)

lemma located_method:
  "locate (callSite example_platform (In_method Info))
     ''{functionName} at {fileName}:{lineNumber}:{columnNumber} x''
   = Inr ''Logger.info at /srv/app/node_modules/@elenoragroup/logger/src/index.ts:175:10 x''"
  by (simp add: example_platform_def module_frame_def locate_def replace_def digits.simps digit_def)

text \<open>
  C3, evaluated where the code departs from it: with a line format that names the
  caller, \<open>info('x')\<close> called from \<open>main\<close> at \<open>/srv/app/main.js:12:10\<close>. The console
  line carries that call site. The line written to latest.log carries the frame of
  \<open>Logger.info\<close> itself: \<open>writeLine\<close> is one call deeper than \<open>log\<close>, so the frame at
  index 2 of its trace is the per-level method, not the caller.
\<close>

theorem C3_file_line_names_the_logger:
  "info example_platform [String ''x''] user_stack located_state
   = (Returned,
      located_state
        \<lparr>fs := (fs located_state)
           (''/srv/app/logs'' \<mapsto> Directory 1709380800000,
            ''/srv/app/logs/latest.log'' \<mapsto> File 1709380800000
              (''Logger.info at /srv/app/node_modules/@elenoragroup/logger/src/index.ts:175:10 x''
               @ [CHR 0x0A])),
         console := [(Console_log, ''main at /srv/app/main.js:12:10 x'')]\<rparr>)"
proof -
  have fl: "formatted example_platform (LEVEL_TAG Info) ''x''
             (callSite example_platform In_writeLine_at_getSync
                # callSite example_platform In_log_at_writeLine
                # callSite example_platform (In_method Info) # user_stack) located_state
      = Inr ''Logger.info at /srv/app/node_modules/@elenoragroup/logger/src/index.ts:175:10 x''"
    by (rule formatted_example [OF example_noon example_limit file_frame file_depth
          located_fields(5) located_fields(4) located_fields(6) located_fill located_method])
  have cl: "formatted example_platform (LEVEL_COLOR example_platform Info) ''x''
             (callSite example_platform In_log_at_getSync
                # callSite example_platform (In_method Info) # user_stack) located_state
      = Inr ''main at /srv/app/main.js:12:10 x''"
    by (rule formatted_example [OF example_noon example_limit console_frame console_depth
          located_fields(5) located_fields(4) located_fields(6) located_fill located_user])
  have rk: "rank (level (this located_state)) \<le> rank Info"
    by (simp add: located_fields level_def)
  from example_first_call [OF rk located_fields(2) located_fields(1) located_fields(8)
      located_fields(9) one_arg fl cl]
  show ?thesis by (simp add: located_fields)
qed

subsection \<open>Double substitution\<close>

lemma token_fill_file:
  "fill ''{time} [{level}] {content}'' ''2024-03-02 12:00:00'' (LEVEL_TAG Info) ''{fileName}''
   = ''2024-03-02 12:00:00 [ info  ] {fileName}''"
  by (simp add: fill_def replace_def)

lemma blue_tag:
  "LEVEL_COLOR example_platform Info = CHR 0x1B # ''[34m info  '' @ CHR 0x1B # ''[39m''"
  by (simp add: LEVEL_COLOR_def example_platform_def ansi_def digits.simps digit_def)

lemma token_fill_console:
  "fill ''{time} [{level}] {content}'' ''2024-03-02 12:00:00''
     (LEVEL_COLOR example_platform Info) ''{fileName}''
   = ''2024-03-02 12:00:00 ['' @ LEVEL_COLOR example_platform Info @ ''] {fileName}''"
  by (simp add: blue_tag fill_def replace_def)

lemma token_locate_file:
  "locate (callSite example_platform (In_method Info)) ''2024-03-02 12:00:00 [ info  ] {fileName}''
   = Inr ''2024-03-02 12:00:00 [ info  ] /srv/app/node_modules/@elenoragroup/logger/src/index.ts''"
  by (simp add: example_platform_def module_frame_def locate_def replace_def digits.simps digit_def)

lemma token_locate_console:
  "locate (user_stack ! 0)
     (''2024-03-02 12:00:00 ['' @ LEVEL_COLOR example_platform Info @ ''] {fileName}'')
   = Inr (''2024-03-02 12:00:00 ['' @ LEVEL_COLOR example_platform Info @ ''] /srv/app/main.js'')"
  by (simp add: blue_tag user_stack_def locate_def replace_def digits.simps digit_def)

lemma token_single_pass:
  "single_pass
     [(''{time}'', ''2024-03-02 12:00:00''),
      (''{level}'', LEVEL_COLOR example_platform Info),
      (''{content}'', ''{fileName}''),
      (''{fileName}'', ''/srv/app/main.js''),
      (''{lineNumber}'', ''12''),
      (''{functionName}'', ''main''),
      (''{columnNumber}'', ''10'')]
     ''{time} [{level}] {content}''
   = ''2024-03-02 12:00:00 ['' @ LEVEL_COLOR example_platform Info @ ''] {fileName}''"
  by (simp add: blue_tag single_pass_def)

text \<open>
  C5: the chained replacements have a double-substitution hazard. With the default
  format and the one argument \<open>'{fileName}'\<close>, the content is the token-shaped text
  \<open>{fileName}\<close>; the format holds no such token, yet the later replacement of
  \<open>{fileName}\<close> fires on the content, so the console line (and the file line) ends
  with a file name where a single-pass substitution of the format leaves the
  content as it was.
\<close>

theorem C5_double_substitution:
  "Array_join '' '' (parsed example_platform [String ''{fileName}'']) = Inr ''{fileName}''
   \<and> logFormat (this fresh_state) = ''{time} [{level}] {content}''
   \<and> info example_platform [String ''{fileName}''] user_stack fresh_state
     = (Returned,
        fresh_state
          \<lparr>fs := (fs fresh_state)
             (''/srv/app/logs'' \<mapsto> Directory 1709380800000,
              ''/srv/app/logs/latest.log'' \<mapsto> File 1709380800000
                (''2024-03-02 12:00:00 [ info  ] /srv/app/node_modules/@elenoragroup/logger/src/index.ts''
                 @ [CHR 0x0A])),
           console := [(Console_log,
              ''2024-03-02 12:00:00 ['' @ LEVEL_COLOR example_platform Info @ ''] /srv/app/main.js'')]\<rparr>)
   \<and> single_pass
       [(''{time}'', ''2024-03-02 12:00:00''),
        (''{level}'', LEVEL_COLOR example_platform Info),
        (''{content}'', ''{fileName}''),
        (''{fileName}'', ''/srv/app/main.js''),
        (''{lineNumber}'', ''12''),
        (''{functionName}'', ''main''),
        (''{columnNumber}'', ''10'')]
       (logFormat (this fresh_state))
     = ''2024-03-02 12:00:00 ['' @ LEVEL_COLOR example_platform Info @ ''] {fileName}''
   \<and> ''2024-03-02 12:00:00 ['' @ LEVEL_COLOR example_platform Info @ ''] /srv/app/main.js''
     \<noteq> ''2024-03-02 12:00:00 ['' @ LEVEL_COLOR example_platform Info @ ''] {fileName}''"
proof -
  have fl: "formatted example_platform (LEVEL_TAG Info) ''{fileName}''
             (callSite example_platform In_writeLine_at_getSync
                # callSite example_platform In_log_at_writeLine
                # callSite example_platform (In_method Info) # user_stack) fresh_state
      = Inr ''2024-03-02 12:00:00 [ info  ] /srv/app/node_modules/@elenoragroup/logger/src/index.ts''"
    by (rule formatted_example [OF example_noon example_limit file_frame file_depth
          fresh_fields(5) fresh_fields(4) fresh_fields(6) token_fill_file token_locate_file])
  have cl: "formatted example_platform (LEVEL_COLOR example_platform Info) ''{fileName}''
             (callSite example_platform In_log_at_getSync
                # callSite example_platform (In_method Info) # user_stack) fresh_state
      = Inr (''2024-03-02 12:00:00 ['' @ LEVEL_COLOR example_platform Info @ ''] /srv/app/main.js'')"
    by (rule formatted_example [OF example_noon example_limit console_frame console_depth
          fresh_fields(5) fresh_fields(4) fresh_fields(6) token_fill_console token_locate_console])
  have rk: "rank (level (this fresh_state)) \<le> rank Info"
    by (simp add: fresh_fields level_def)
  have call: "info example_platform [String ''{fileName}''] user_stack fresh_state
     = (Returned,
        fresh_state
          \<lparr>fs := (fs fresh_state)
             (''/srv/app/logs'' \<mapsto> Directory 1709380800000,
              ''/srv/app/logs/latest.log'' \<mapsto> File 1709380800000
                (''2024-03-02 12:00:00 [ info  ] /srv/app/node_modules/@elenoragroup/logger/src/index.ts''
                 @ [CHR 0x0A])),
           console := [(Console_log,
              ''2024-03-02 12:00:00 ['' @ LEVEL_COLOR example_platform Info @ ''] /srv/app/main.js'')]\<rparr>)"
    using example_first_call [OF rk fresh_fields(2) fresh_fields(1) fresh_fields(8)
      fresh_fields(9) one_arg fl cl]
    by (simp add: fresh_fields)
  have fmt: "logFormat (this fresh_state) = ''{time} [{level}] {content}''"
    by (simp add: logFormat_def fresh_fields)
  have differ: "''2024-03-02 12:00:00 ['' @ LEVEL_COLOR example_platform Info @ ''] /srv/app/main.js''
     \<noteq> ''2024-03-02 12:00:00 ['' @ LEVEL_COLOR example_platform Info @ ''] {fileName}''"
    by simp
  from one_arg call fmt token_single_pass differ show ?thesis
    by (simp only: simp_thms)
qed

lemma hello_fill_file:
  "fill ''{time} [{level}] {content}'' ''2024-03-02 12:00:00'' (LEVEL_TAG Info) ''hello''
   = ''2024-03-02 12:00:00 [ info  ] hello''"
  by (simp add: fill_def replace_def)

lemma hello_fill_console:
  "fill ''{time} [{level}] {content}'' ''2024-03-02 12:00:00''
     (LEVEL_COLOR example_platform Info) ''hello''
   = ''2024-03-02 12:00:00 ['' @ LEVEL_COLOR example_platform Info @ ''] hello''"
  by (simp add: blue_tag fill_def replace_def)

lemma LEVEL_COLOR_refusing: "LEVEL_COLOR (refusing f) lvl = LEVEL_COLOR example_platform lvl"
  by (cases lvl) (simp_all add: LEVEL_COLOR_def refusing_def)

lemma callSite_refusing: "callSite (refusing f) = callSite example_platform"
  by (simp add: refusing_def)

lemma hello_locate_file:
  "locate (callSite example_platform (In_method Info)) ''2024-03-02 12:00:00 [ info  ] hello''
   = Inr ''2024-03-02 12:00:00 [ info  ] hello''"
  by (simp add: example_platform_def module_frame_def locate_def replace_def)

lemma hello_locate_console:
  "locate (user_stack ! 0) (''2024-03-02 12:00:00 ['' @ LEVEL_COLOR example_platform Info @ ''] hello'')
   = Inr (''2024-03-02 12:00:00 ['' @ LEVEL_COLOR example_platform Info @ ''] hello'')"
  by (simp add: blue_tag user_stack_def locate_def replace_def)

lemma hello_file_line:
  assumes "u_format (this s) = ''{time} [{level}] {content}''"
      and "u_timeFormat (this s) = ''D TT''" and "now s = 1709380800000"
  shows "formatted (refusing f) (LEVEL_TAG Info) ''hello''
           (callSite (refusing f) In_writeLine_at_getSync # callSite (refusing f) In_log_at_writeLine
              # callSite (refusing f) (In_method Info) # stack) s
         = Inr ''2024-03-02 12:00:00 [ info  ] hello''"
  unfolding callSite_refusing
  by (rule formatted_example [OF refusing_noon refusing_limit file_frame file_depth
        assms hello_fill_file hello_locate_file])

lemma hello_console_line:
  assumes "u_format (this s) = ''{time} [{level}] {content}''"
      and "u_timeFormat (this s) = ''D TT''" and "now s = 1709380800000"
  shows "formatted (refusing f) (LEVEL_COLOR (refusing f) Info) ''hello''
           (callSite (refusing f) In_log_at_getSync # callSite (refusing f) (In_method Info)
              # user_stack) s
         = Inr (''2024-03-02 12:00:00 ['' @ LEVEL_COLOR example_platform Info @ ''] hello'')"
  unfolding callSite_refusing LEVEL_COLOR_refusing
  by (rule formatted_example [OF refusing_noon refusing_limit console_frame console_depth
        assms hello_fill_console hello_locate_console])

lemma example_as_refusing: "refusing (\<lambda>call. False) = example_platform"
  by (simp add: refusing_def example_platform_def)

lemmas hello_file_line_example = hello_file_line [where f = "\<lambda>call. False", unfolded example_as_refusing]
lemmas hello_console_line_example = hello_console_line [where f = "\<lambda>call. False", unfolded example_as_refusing]

subsection \<open>Rotation at work\<close>

text \<open>
  The theorem at work on the two cases of the specification: latest.log created at
  \<open>T\<close> and an append at \<open>T + 86 400 001\<close> ms (the file becomes
  \<open>output-2024-03-01.log\<close>, the date of \<open>T\<close>), and an append at \<open>T + 1000\<close> ms.
\<close>

theorem C1_rotating_append_witness:
  "rat_of_int (now (logged_state 1709294399999)) - 1709294399999 = 86400001
   \<and> writeLine example_platform Info ''hello''
       (callSite example_platform In_log_at_writeLine # callSite example_platform (In_method Info)
          # user_stack)
       (logged_state 1709294399999)
     = (Returned,
        (logged_state 1709294399999)
          \<lparr>fs := (fs (logged_state 1709294399999))
             (''/srv/app/logs/latest.log'' := None,
              ''/srv/app/logs/output-2024-03-01.log''
                \<mapsto> File 1709294399999 (''earlier line'' @ [CHR 0x0A]),
              ''/srv/app/logs/latest.log''
                \<mapsto> File 1709380800000 (''2024-03-02 12:00:00 [ info  ] hello'' @ [CHR 0x0A]))\<rparr>)
   \<and> rat_of_int (now (logged_state 1709380799000)) - 1709380799000 = 1000
   \<and> writeLine example_platform Info ''hello''
       (callSite example_platform In_log_at_writeLine # callSite example_platform (In_method Info)
          # user_stack)
       (logged_state 1709380799000)
     = (Returned,
        (logged_state 1709380799000)
          \<lparr>fs := (fs (logged_state 1709380799000))
             (''/srv/app/logs/latest.log''
                \<mapsto> File 1709380799000
                    ((''earlier line'' @ [CHR 0x0A])
                     @ ''2024-03-02 12:00:00 [ info  ] hello'' @ [CHR 0x0A]))\<rparr>)"
proof -
  let ?stack = "callSite example_platform In_log_at_writeLine
                  # callSite example_platform (In_method Info) # user_stack"
  let ?out = "''/srv/app/logs/latest.log''"
  have out: "?out = path_join example_platform (logPath (this (logged_state c))) ''latest.log''" for c
    by (simp add: logged_this example_platform_def)
  have dir: "existsSync (logPath (this (logged_state c))) (logged_state c)" for c
    by (simp add: existsSync_def logged_this logged_files)
  have line: "formatted example_platform (LEVEL_TAG Info) ''hello''
          (callSite example_platform In_writeLine_at_getSync # ?stack) (logged_state c)
        = Inr ''2024-03-02 12:00:00 [ info  ] hello''" for c
    by (rule hello_file_line_example [OF logged_this(5) logged_this(4) logged_now])
  have ok: "\<not> fails example_platform call" for call
    by (simp add: example_platform_def)
  have old_archive: "''/srv/app/logs/output-2024-03-01.log''
      = path_join example_platform (logPath (this (logged_state 1709294399999)))
          (''output-'' @ toLocaleDateString example_platform (Date_of 1709294399999) @ ''.log'')"
    by (simp add: logged_this example_archive) (simp add: example_platform_def)
  have old_free: "\<not> is_Directory (fs (logged_state 1709294399999) ''/srv/app/logs/output-2024-03-01.log'')"
    by (simp add: logged_files)
  define young_archive where "young_archive
      = path_join example_platform (logPath (this (logged_state 1709380799000)))
          (''output-'' @ toLocaleDateString example_platform (Date_of 1709380799000) @ ''.log'')"
  have young_name: "young_archive = ''/srv/app/logs/output-''
      @ toLocaleDateString example_platform (Date_of 1709380799000) @ ''.log''"
    by (simp add: young_archive_def logged_this example_platform_def)
  have young_free: "\<not> is_Directory (fs (logged_state 1709380799000) young_archive)"
    by (simp add: young_name logged_state_def)
  have young_other: "young_archive \<noteq> ?out"
    by (simp add: young_name)
  have a: "rat_of_int (now (logged_state 1709294399999)) - 1709294399999 = 86400001"
    by (simp add: logged_now)
  have b: "rat_of_int (now (logged_state 1709380799000)) - 1709380799000 = 1000"
    by (simp add: logged_now)
  from C1_rotating_append [OF logged_this(2) dir out old_archive logged_files(2) line
      ok ok ok old_free] a
  have old: "writeLine example_platform Info ''hello'' ?stack (logged_state 1709294399999)
     = (Returned,
        (logged_state 1709294399999)
          \<lparr>fs := (fs (logged_state 1709294399999))
             (''/srv/app/logs/latest.log'' := None,
              ''/srv/app/logs/output-2024-03-01.log''
                \<mapsto> File 1709294399999 (''earlier line'' @ [CHR 0x0A]),
              ''/srv/app/logs/latest.log''
                \<mapsto> File 1709380800000 (''2024-03-02 12:00:00 [ info  ] hello'' @ [CHR 0x0A]))\<rparr>)"
    by (simp add: logged_now)
  from C1_rotating_append [OF logged_this(2) dir out young_archive_def logged_files(2) line
      ok ok ok young_free young_other] b
  have young: "writeLine example_platform Info ''hello'' ?stack (logged_state 1709380799000)
     = (Returned,
        (logged_state 1709380799000)
          \<lparr>fs := (fs (logged_state 1709380799000))
             (''/srv/app/logs/latest.log''
                \<mapsto> File 1709380799000
                    ((''earlier line'' @ [CHR 0x0A])
                     @ ''2024-03-02 12:00:00 [ info  ] hello'' @ [CHR 0x0A]))\<rparr>)"
    by (simp add: logged_now)
  from a old b young show ?thesis by (simp only: simp_thms)
qed

subsection \<open>Failures at work\<close>

lemma hello_rank: "rank (level (this (logged_state created))) \<le> rank Info"
  by (simp add: level_def logged_this)

lemma logged_out:
  "''/srv/app/logs/latest.log''
   = path_join (refusing f) (logPath (this (logged_state created))) ''latest.log''"
  by (simp add: logged_this refusing_fields)

lemma logged_dir: "existsSync (logPath (this (logged_state created))) (logged_state created)"
  by (simp add: existsSync_def logged_this logged_files)

text \<open>
  Against C2 as stated: a day-old latest.log on a file system that refuses every
  rename. \<open>info('hello')\<close> returns normally, nothing is renamed, and latest.log has lost
  its earlier line and holds the new line alone.
\<close>

theorem C2_rename_failure_counterexample:
  "fails (refusing is_Rename)
     (Rename ''/srv/app/logs/latest.log'' ''/srv/app/logs/output-2024-03-01.log'')
   \<and> info (refusing is_Rename) [String ''hello''] user_stack (logged_state 1709294399999)
     = (Returned,
        (logged_state 1709294399999)
          \<lparr>fs := (fs (logged_state 1709294399999))
             (''/srv/app/logs/latest.log''
                \<mapsto> File 1709294399999 (''2024-03-02 12:00:00 [ info  ] hello'' @ [CHR 0x0A])),
           console := [(Console_log,
              ''2024-03-02 12:00:00 ['' @ LEVEL_COLOR example_platform Info @ ''] hello'')]\<rparr>)"
proof -
  let ?pf = "refusing is_Rename"
  let ?s = "logged_state 1709294399999"
  have refused: "fails ?pf (Rename ''/srv/app/logs/latest.log'' ''/srv/app/logs/output-2024-03-01.log'')"
    by (simp add: refusing_fields)
  have archive: "path_join ?pf (logPath (this ?s))
          (''output-'' @ toLocaleDateString ?pf (Date_of 1709294399999) @ ''.log'')
        = ''/srv/app/logs/output-2024-03-01.log''"
    by (simp add: refusing_fields logged_this example_archive)
  have wl: "writeLine ?pf Info ''hello''
        (callSite ?pf In_log_at_writeLine # callSite ?pf (In_method Info) # user_stack) ?s
      = (Returned, ?s\<lparr>fs := (fs ?s)(''/srv/app/logs/latest.log''
                \<mapsto> File 1709294399999 (''2024-03-02 12:00:00 [ info  ] hello'' @ [CHR 0x0A]))\<rparr>)"
  proof (rule writeLine_rename_refused [OF logged_this(2) logged_dir logged_out logged_files(2)])
    show "86400000 \<le> rat_of_int (now ?s) - 1709294399999" by (simp add: logged_now)
    show "\<not> fails ?pf (Stat ''/srv/app/logs/latest.log'')" by (simp add: refusing_fields)
    show "fails ?pf (Rename ''/srv/app/logs/latest.log''
            (path_join ?pf (logPath (this ?s))
               (''output-'' @ toLocaleDateString ?pf (Date_of 1709294399999) @ ''.log'')))"
      unfolding archive by (rule refused)
    show "\<not> fails ?pf (WriteFile ''/srv/app/logs/latest.log'')" by (simp add: refusing_fields)
    show "formatted ?pf (LEVEL_TAG Info) ''hello''
           (callSite ?pf In_writeLine_at_getSync # callSite ?pf In_log_at_writeLine
              # callSite ?pf (In_method Info) # user_stack) ?s
         = Inr ''2024-03-02 12:00:00 [ info  ] hello''"
      by (rule hello_file_line [OF logged_this(5) logged_this(4) logged_now])
  qed
  from operation_returns [OF hello_rank one_arg wl
      hello_console_line [OF logged_this(5) logged_this(4) logged_now]]
  have "info ?pf [String ''hello''] user_stack ?s
     = (Returned,
        ?s\<lparr>fs := (fs ?s)
             (''/srv/app/logs/latest.log''
                \<mapsto> File 1709294399999 (''2024-03-02 12:00:00 [ info  ] hello'' @ [CHR 0x0A])),
           console := [(Console_log,
              ''2024-03-02 12:00:00 ['' @ LEVEL_COLOR example_platform Info @ ''] hello'')]\<rparr>)"
    by (simp add: emit_def logged_console)
  with refused show ?thesis by (simp only: simp_thms)
qed

text \<open>
  The theorem at work: a young latest.log whose append is refused, once with the fresh
  write allowed and once with every write refused.
\<close>

theorem C2_failures_fall_back_to_a_fresh_write_witness:
  "fails (refusing is_AppendFile) (AppendFile ''/srv/app/logs/latest.log'')
   \<and> (\<exists>r s' t. info (refusing is_AppendFile) [String ''hello''] user_stack (logged_state 1709380799000)
                   = (r, s')
          \<and> (\<forall>call. r \<noteq> Thrown (SystemError call))
          \<and> fs s' ''/srv/app/logs/latest.log''
               = Some (File t (''2024-03-02 12:00:00 [ info  ] hello'' @ [CHR 0x0A])))
   \<and> fails (refusing is_write) (AppendFile ''/srv/app/logs/latest.log'')
   \<and> (\<exists>s'. info (refusing is_write) [String ''hello''] user_stack (logged_state 1709380799000)
               = (Thrown (SystemError (WriteFile ''/srv/app/logs/latest.log'')), s')
          \<and> console s' = console (logged_state 1709380799000))"
proof -
  let ?s = "logged_state 1709380799000"
  let ?out = "''/srv/app/logs/latest.log''"
  have regular: "\<not> is_Directory (fs ?s ?out)" by (simp add: logged_files)
  have a: "fails (refusing is_AppendFile) (AppendFile ?out)" by (simp add: refusing_fields)
  have b: "fails (refusing is_write) (AppendFile ?out)" by (simp add: refusing_fields)
  have fa: "fails (refusing is_AppendFile) (Stat ?out) \<or> fails (refusing is_AppendFile) (AppendFile ?out)
           \<or> (\<exists>n. fs ?s ?out = Some n \<and> of_int (now ?s) - birthtimeMs n \<ge> 86400000
                  \<and> fails (refusing is_AppendFile)
                       (Rename ?out (path_join (refusing is_AppendFile) (logPath (this ?s))
                          (''output-'' @ toLocaleDateString (refusing is_AppendFile)
                             (Date_of (birthtimeMs n)) @ ''.log''))))"
    using a by simp
  have fb: "fails (refusing is_write) (Stat ?out) \<or> fails (refusing is_write) (AppendFile ?out)
           \<or> (\<exists>n. fs ?s ?out = Some n \<and> of_int (now ?s) - birthtimeMs n \<ge> 86400000
                  \<and> fails (refusing is_write)
                       (Rename ?out (path_join (refusing is_write) (logPath (this ?s))
                          (''output-'' @ toLocaleDateString (refusing is_write)
                             (Date_of (birthtimeMs n)) @ ''.log''))))"
    using b by simp
  from C2_failures_fall_back_to_a_fresh_write [OF hello_rank one_arg logged_this(2) logged_dir
      logged_out hello_file_line [OF logged_this(5) logged_this(4) logged_now] fa regular]
  have first: "\<exists>r s' t. info (refusing is_AppendFile) [String ''hello''] user_stack ?s = (r, s')
          \<and> (\<forall>call. r \<noteq> Thrown (SystemError call))
          \<and> fs s' ?out = Some (File t (''2024-03-02 12:00:00 [ info  ] hello'' @ [CHR 0x0A]))"
    by (simp add: refusing_fields)
  from C2_failures_fall_back_to_a_fresh_write [OF hello_rank one_arg logged_this(2) logged_dir
      logged_out hello_file_line [OF logged_this(5) logged_this(4) logged_now] fb regular]
  have second: "\<exists>s'. info (refusing is_write) [String ''hello''] user_stack ?s
               = (Thrown (SystemError (WriteFile ?out)), s')
          \<and> console s' = console ?s"
    by (simp add: refusing_fields)
  from a first b second show ?thesis by (simp only: simp_thms)
qed

subsection \<open>One line per call, at work\<close>

lemma fresh_level: "level (this fresh_state) = Info"
  by (simp add: level_def fresh_fields)

text \<open>
  Against C7 as stated: a call at the minimum level, write-to-file enabled, in a
  working directory where nothing can be created. \<open>mkdirSync\<close> throws, the error leaves
  \<open>info\<close>, and neither a console line nor a file line is produced.
\<close>

theorem C7_refused_write_counterexample:
  "rank (level (this fresh_state)) \<le> rank Info
   \<and> writeFile (this fresh_state)
   \<and> fails (refusing is_write) (Mkdir ''/srv/app/logs'')
   \<and> info (refusing is_write) [String ''hello''] user_stack fresh_state
     = (Thrown (SystemError (Mkdir ''/srv/app/logs'')), fresh_state)
   \<and> console fresh_state = []
   \<and> fs fresh_state ''/srv/app/logs/latest.log'' = None"
proof -
  let ?pf = "refusing is_write"
  have rk: "rank (level (this fresh_state)) \<le> rank Info" by (simp add: fresh_level)
  have refused: "fails ?pf (Mkdir ''/srv/app/logs'')" by (simp add: refusing_fields)
  have "writeLine ?pf Info ''hello''
          (callSite ?pf In_log_at_writeLine # callSite ?pf (In_method Info) # user_stack) fresh_state
        = (Thrown (SystemError (Mkdir (logPath (this fresh_state)))), fresh_state)"
    by (rule writeLine_mkdir_refused) (simp_all add: fresh_fields refusing_fields)
  from operation_throws [OF rk one_arg this]
  have "info ?pf [String ''hello''] user_stack fresh_state
     = (Thrown (SystemError (Mkdir ''/srv/app/logs'')), fresh_state)"
    by (simp add: fresh_fields)
  with rk refused fresh_fields(2) fresh_fields(7) fresh_fields(9) show ?thesis
    by (simp only: simp_thms writeFile_def)
qed

lemma fresh_hello:
  "info example_platform [String ''hello''] user_stack fresh_state
   = (Returned,
      fresh_state
        \<lparr>fs := (fs fresh_state)
           (''/srv/app/logs'' \<mapsto> Directory 1709380800000,
            ''/srv/app/logs/latest.log''
              \<mapsto> File 1709380800000 (''2024-03-02 12:00:00 [ info  ] hello'' @ [CHR 0x0A])),
         console := [(Console_log,
            ''2024-03-02 12:00:00 ['' @ LEVEL_COLOR example_platform Info @ ''] hello'')]\<rparr>)"
proof -
  have rk: "rank (level (this fresh_state)) \<le> rank Info" by (simp add: fresh_level)
  from example_first_call [OF rk fresh_fields(2) fresh_fields(1) fresh_fields(8) fresh_fields(9)
      one_arg
      hello_file_line_example [OF fresh_fields(5) fresh_fields(4) fresh_fields(6)]
      hello_console_line_example [OF fresh_fields(5) fresh_fields(4) fresh_fields(6)]]
  show ?thesis by (simp add: fresh_fields)
qed

text \<open>
  The theorem at work on the first call of a process.
\<close>

theorem C7_one_line_when_the_call_returns_witness:
  "rank (level (this fresh_state)) \<le> rank Info
   \<and> doWrite (this fresh_state)
   \<and> info example_platform [String ''hello''] user_stack fresh_state
     = (Returned,
        fresh_state
          \<lparr>fs := (fs fresh_state)
             (''/srv/app/logs'' \<mapsto> Directory 1709380800000,
              ''/srv/app/logs/latest.log''
                \<mapsto> File 1709380800000 (''2024-03-02 12:00:00 [ info  ] hello'' @ [CHR 0x0A])),
           console := [(Console_log,
              ''2024-03-02 12:00:00 ['' @ LEVEL_COLOR example_platform Info @ ''] hello'')]\<rparr>)
   \<and> (\<exists>out message.
         console (fresh_state
          \<lparr>fs := (fs fresh_state)
             (''/srv/app/logs'' \<mapsto> Directory 1709380800000,
              ''/srv/app/logs/latest.log''
                \<mapsto> File 1709380800000 (''2024-03-02 12:00:00 [ info  ] hello'' @ [CHR 0x0A])),
           console := [(Console_log,
              ''2024-03-02 12:00:00 ['' @ LEVEL_COLOR example_platform Info @ ''] hello'')]\<rparr>)
         = console fresh_state @ [(out, message)])
   \<and> (\<exists>line message t prev.
         Array_join '' '' (parsed example_platform [String ''hello'']) = Inr line
         \<and> formatted example_platform (LEVEL_TAG Info) line
              (callSite example_platform In_writeLine_at_getSync
                 # callSite example_platform In_log_at_writeLine
                 # callSite example_platform (In_method Info) # user_stack) fresh_state
            = Inr message
         \<and> fs (fresh_state
          \<lparr>fs := (fs fresh_state)
             (''/srv/app/logs'' \<mapsto> Directory 1709380800000,
              ''/srv/app/logs/latest.log''
                \<mapsto> File 1709380800000 (''2024-03-02 12:00:00 [ info  ] hello'' @ [CHR 0x0A])),
           console := [(Console_log,
              ''2024-03-02 12:00:00 ['' @ LEVEL_COLOR example_platform Info @ ''] hello'')]\<rparr>)
              (path_join example_platform (logPath (this fresh_state)) ''latest.log'')
            = Some (File t (prev @ message @ [CHR 0x0A]))
         \<and> (prev = []
             \<or> fs fresh_state (path_join example_platform (logPath (this fresh_state)) ''latest.log'')
                = Some (File t prev)))"
proof -
  have rk: "rank (level (this fresh_state)) \<le> rank Info" by (simp add: fresh_level)
  have call: "operation Info example_platform [String ''hello''] user_stack fresh_state
     = (Returned,
        fresh_state
          \<lparr>fs := (fs fresh_state)
             (''/srv/app/logs'' \<mapsto> Directory 1709380800000,
              ''/srv/app/logs/latest.log''
                \<mapsto> File 1709380800000 (''2024-03-02 12:00:00 [ info  ] hello'' @ [CHR 0x0A])),
           console := [(Console_log,
              ''2024-03-02 12:00:00 ['' @ LEVEL_COLOR example_platform Info @ ''] hello'')]\<rparr>)"
    by (simp only: operation.simps fresh_hello)
  from C7_one_line_when_the_call_returns [OF rk call] rk fresh_fields(2) fresh_hello
  show ?thesis
    by (simp only: if_True simp_thms)
qed

subsection \<open>Routing at work\<close>

lemma red_tag:
  "LEVEL_COLOR example_platform Error = CHR 0x1B # ''[91m error '' @ CHR 0x1B # ''[39m''"
  by (simp add: LEVEL_COLOR_def example_platform_def ansi_def digits.simps digit_def)

lemma disk_fill_file:
  "fill ''{time} [{level}] {content}'' ''2024-03-02 12:00:00'' (LEVEL_TAG Error) ''disk full''
   = ''2024-03-02 12:00:00 [ error ] disk full''"
  by (simp add: fill_def replace_def)

lemma disk_fill_console:
  "fill ''{time} [{level}] {content}'' ''2024-03-02 12:00:00''
     (LEVEL_COLOR example_platform Error) ''disk full''
   = ''2024-03-02 12:00:00 ['' @ LEVEL_COLOR example_platform Error @ ''] disk full''"
  by (simp add: red_tag fill_def replace_def)

lemma disk_locate_file:
  "locate (callSite example_platform (In_method Error)) ''2024-03-02 12:00:00 [ error ] disk full''
   = Inr ''2024-03-02 12:00:00 [ error ] disk full''"
  by (simp add: example_platform_def module_frame_def locate_def replace_def)

lemma disk_locate_console:
  "locate (user_stack ! 0)
     (''2024-03-02 12:00:00 ['' @ LEVEL_COLOR example_platform Error @ ''] disk full'')
   = Inr (''2024-03-02 12:00:00 ['' @ LEVEL_COLOR example_platform Error @ ''] disk full'')"
  by (simp add: red_tag user_stack_def locate_def replace_def)

lemma fresh_disk_full:
  "error example_platform [String ''disk full''] user_stack fresh_state
   = (Returned,
      fresh_state
        \<lparr>fs := (fs fresh_state)
           (''/srv/app/logs'' \<mapsto> Directory 1709380800000,
            ''/srv/app/logs/latest.log''
              \<mapsto> File 1709380800000 (''2024-03-02 12:00:00 [ error ] disk full'' @ [CHR 0x0A])),
         console := [(Console_error,
            ''2024-03-02 12:00:00 ['' @ LEVEL_COLOR example_platform Error @ ''] disk full'')]\<rparr>)"
proof -
  have rk: "rank (level (this fresh_state)) \<le> rank Error" by (simp add: fresh_level)
  have fl: "formatted example_platform (LEVEL_TAG Error) ''disk full''
             (callSite example_platform In_writeLine_at_getSync
                # callSite example_platform In_log_at_writeLine
                # callSite example_platform (In_method Error) # user_stack) fresh_state
      = Inr ''2024-03-02 12:00:00 [ error ] disk full''"
    by (rule formatted_example [OF example_noon example_limit file_frame file_depth
          fresh_fields(5) fresh_fields(4) fresh_fields(6) disk_fill_file disk_locate_file])
  have cl: "formatted example_platform (LEVEL_COLOR example_platform Error) ''disk full''
             (callSite example_platform In_log_at_getSync
                # callSite example_platform (In_method Error) # user_stack) fresh_state
      = Inr (''2024-03-02 12:00:00 ['' @ LEVEL_COLOR example_platform Error @ ''] disk full'')"
    by (rule formatted_example [OF example_noon example_limit console_frame console_depth
          fresh_fields(5) fresh_fields(4) fresh_fields(6) disk_fill_console disk_locate_console])
  from example_first_call [OF rk fresh_fields(2) fresh_fields(1) fresh_fields(8) fresh_fields(9)
      one_arg fl cl]
  show ?thesis by (simp add: fresh_fields)
qed

text \<open>
  The theorem at work: \<open>error('disk full')\<close> goes to \<open>console.error\<close>.
\<close>

theorem C8_console_routing_witness:
  "rank (level (this fresh_state)) \<le> rank Error
   \<and> error example_platform [String ''disk full''] user_stack fresh_state
     = (Returned,
        fresh_state
          \<lparr>fs := (fs fresh_state)
             (''/srv/app/logs'' \<mapsto> Directory 1709380800000,
              ''/srv/app/logs/latest.log''
                \<mapsto> File 1709380800000 (''2024-03-02 12:00:00 [ error ] disk full'' @ [CHR 0x0A])),
           console := [(Console_error,
              ''2024-03-02 12:00:00 ['' @ LEVEL_COLOR example_platform Error @ ''] disk full'')]\<rparr>)
   \<and> (\<exists>line message.
         Array_join '' '' (parsed example_platform [String ''disk full'']) = Inr line
         \<and> formatted example_platform (LEVEL_COLOR example_platform Error) line
              (callSite example_platform In_log_at_getSync
                 # callSite example_platform (In_method Error) # user_stack) fresh_state
            = Inr message
         \<and> console (fresh_state
          \<lparr>fs := (fs fresh_state)
             (''/srv/app/logs'' \<mapsto> Directory 1709380800000,
              ''/srv/app/logs/latest.log''
                \<mapsto> File 1709380800000 (''2024-03-02 12:00:00 [ error ] disk full'' @ [CHR 0x0A])),
           console := [(Console_error,
              ''2024-03-02 12:00:00 ['' @ LEVEL_COLOR example_platform Error @ ''] disk full'')]\<rparr>)
           = console fresh_state @ [(Console_error, message)])"
proof -
  have rk: "rank (level (this fresh_state)) \<le> rank Error" by (simp add: fresh_level)
  have call: "operation Error example_platform [String ''disk full''] user_stack fresh_state
     = (Returned,
        fresh_state
          \<lparr>fs := (fs fresh_state)
             (''/srv/app/logs'' \<mapsto> Directory 1709380800000,
              ''/srv/app/logs/latest.log''
                \<mapsto> File 1709380800000 (''2024-03-02 12:00:00 [ error ] disk full'' @ [CHR 0x0A])),
           console := [(Console_error,
              ''2024-03-02 12:00:00 ['' @ LEVEL_COLOR example_platform Error @ ''] disk full'')]\<rparr>)"
    by (simp only: operation.simps fresh_disk_full)
  from C8_console_routing [OF rk call] rk fresh_disk_full
  show ?thesis
    by (simp only: if_True simp_thms outcome.distinct ex_simps)
qed

text \<open>
  Against C8 as stated: \<open>error('disk full')\<close> passes the level check, but in a
  working directory where nothing can be created \<open>mkdirSync\<close> throws before the
  console is reached, so no line is written to the error stream.
\<close>

theorem C8_throwing_call_counterexample:
  "rank (level (this fresh_state)) \<le> rank Error
   \<and> fails (refusing is_write) (Mkdir ''/srv/app/logs'')
   \<and> error (refusing is_write) [String ''disk full''] user_stack fresh_state
     = (Thrown (SystemError (Mkdir ''/srv/app/logs'')), fresh_state)
   \<and> console fresh_state = []"
proof -
  let ?pf = "refusing is_write"
  have rk: "rank (level (this fresh_state)) \<le> rank Error" by (simp add: fresh_level)
  have refused: "fails ?pf (Mkdir ''/srv/app/logs'')" by (simp add: refusing_fields)
  have "writeLine ?pf Error ''disk full''
          (callSite ?pf In_log_at_writeLine # callSite ?pf (In_method Error) # user_stack) fresh_state
        = (Thrown (SystemError (Mkdir (logPath (this fresh_state)))), fresh_state)"
    by (rule writeLine_mkdir_refused) (simp_all add: fresh_fields refusing_fields)
  from operation_throws [OF rk one_arg this]
  have "error ?pf [String ''disk full''] user_stack fresh_state
     = (Thrown (SystemError (Mkdir ''/srv/app/logs'')), fresh_state)"
    by (simp add: fresh_fields)
  with rk refused fresh_fields(7) show ?thesis
    by (simp only: simp_thms)
qed

subsection \<open>Content rendering at work\<close>

text \<open>
  Against C6 as stated: \<open>('user:', undefined)\<close> gives \<open>'user: '\<close> where the natural
  string form of undefined is \<open>'undefined'\<close>, and a symbol argument gives no content
  string at all: the join throws.
\<close>

theorem C6_undefined_counterexample:
  "Array_join '' '' (parsed example_platform [String ''user:'', Undefined]) = Inr ''user: ''
   \<and> spec_content example_platform [String ''user:'', Undefined] = ''user: undefined''
   \<and> Array_join '' '' (parsed example_platform [String ''user:'', Undefined])
     \<noteq> Inr (spec_content example_platform [String ''user:'', Undefined])
   \<and> Array_join '' '' (parsed example_platform [Symbol ''id'']) = Inl TypeError
   \<and> spec_content example_platform [Symbol ''id''] = ''Symbol(id)''"
  by (simp add: parsed_def join_element_def spec_content_def)

text \<open>
  The theorem at work on a string, undefined, an object, null, a number, a boolean
  and a function.
\<close>

theorem C6_content_rendering_witness:
  "(\<forall>d. Symbol d \<notin> set [String ''a'', Undefined, Object [(''k'', Number 1)], Null,
                            Number (- 7), Boolean True, Function ''() => 1''])
   \<and> Array_join '' '' (parsed example_platform
        [String ''a'', Undefined, Object [(''k'', Number 1)], Null,
         Number (- 7), Boolean True, Function ''() => 1''])
     = Inr ''a  { k: 1 } null -7 true () => 1''"
proof -
  have none: "\<forall>d. Symbol d \<notin> set [String ''a'', Undefined, Object [(''k'', Number 1)], Null,
                            Number (- 7), Boolean True, Function ''() => 1'']"
    by simp
  from C6_content_rendering [OF none, of example_platform] none
  show ?thesis
    by (simp add: example_platform_def Number_toString_def digits.simps digit_def)
qed

end
